theory Spec2Isabelle
  imports Main "HOL-Library.AList"
begin

section \<open>Service orchestration helper: \<^verbatim>\<open>scripts/ensure_services_operated.py\<close>\<close>

text \<open>
  The script wraps the container-compose command line. Everything it learns about the outside
  comes from five places: the outcome of a spawned process, the existence of a file, the result
  of a TCP connect, the value \<^verbatim>\<open>json.loads\<close> gives for a line, and what the operator types.
  These are the fields of a \<open>world\<close> below, and every operation of \<^verbatim>\<open>ServiceManager\<close> is a
  function of the manager, the world and the trace of effects so far, returning its Python
  result and the extended trace.

  Scope of the model.
  \<^item> Strings are \<open>char list\<close> and stand for ASCII text: \<open>strip\<close>, \<open>split_ws\<close> and \<open>lower\<close>
    follow Python's \<^verbatim>\<open>str.strip\<close>, \<^verbatim>\<open>str.split\<close> and \<^verbatim>\<open>str.lower\<close> on code points below 128.
  \<^item> Exceptions are the ones derived from \<^verbatim>\<open>Exception\<close>; an interrupt of the operator is
    modelled only where the source handles it, at \<^verbatim>\<open>input()\<close>.
  \<^item> The trace records spawned commands, port probes, reads of the keyboard, and the lines
    printed by \<^verbatim>\<open>show_service_status\<close>, \<^verbatim>\<open>show_logs\<close> and the port probe of
    \<^verbatim>\<open>test_services\<close>, and the warning of the bring-up workflows. Banners and progress
    messages are not recorded.
\<close>

subsection \<open>Python string operations\<close>

text \<open>The ASCII characters for which \<^verbatim>\<open>str.isspace\<close> holds.\<close>

definition is_space :: "char \<Rightarrow> bool" where
  "is_space c = (c \<in> set [CHR 0x09, CHR 0x0A, CHR 0x0B, CHR 0x0C, CHR 0x0D,
                          CHR 0x1C, CHR 0x1D, CHR 0x1E, CHR 0x1F, CHR '' ''])"

text \<open>\<^verbatim>\<open>s.strip()\<close>\<close>

definition strip :: "string \<Rightarrow> string" where
  "strip s = rev (dropWhile is_space (rev (dropWhile is_space s)))"

text \<open>\<^verbatim>\<open>s.split(sep)\<close> for a one-character separator: never empty, keeps empty pieces.\<close>

fun split_on :: "char \<Rightarrow> string \<Rightarrow> string list" where
  "split_on sep [] = [[]]"
| "split_on sep (c # cs) =
     (if c = sep then [] # split_on sep cs
      else (case split_on sep cs of r # rs \<Rightarrow> (c # r) # rs | [] \<Rightarrow> [[c]]))"

text \<open>\<^verbatim>\<open>s.split()\<close>: the maximal runs of non-whitespace characters, in order.\<close>

fun split_ws_acc :: "string \<Rightarrow> string \<Rightarrow> string list" where
  "split_ws_acc tok [] = (if tok = [] then [] else [rev tok])"
| "split_ws_acc tok (c # cs) =
     (if is_space c then (if tok = [] then split_ws_acc [] cs else rev tok # split_ws_acc [] cs)
      else split_ws_acc (c # tok) cs)"

definition split_ws :: "string \<Rightarrow> string list" where
  "split_ws s = split_ws_acc [] s"

text \<open>\<^verbatim>\<open>needle in hay\<close> on strings: \<open>needle\<close> occurs as a contiguous piece of \<open>hay\<close>.\<close>

fun starts_with :: "string \<Rightarrow> string \<Rightarrow> bool" where
  "starts_with [] hay = True"
| "starts_with (n # ns) [] = False"
| "starts_with (n # ns) (h # hs) = (n = h \<and> starts_with ns hs)"

fun str_contains :: "string \<Rightarrow> string \<Rightarrow> bool" where
  "str_contains needle [] = (needle = [])"
| "str_contains needle (h # hs) = (starts_with needle (h # hs) \<or> str_contains needle hs)"

text \<open>\<^verbatim>\<open>s.lower()\<close>\<close>

definition lower_char :: "char \<Rightarrow> char" where
  "lower_char c =
     (case map_of (zip ''ABCDEFGHIJKLMNOPQRSTUVWXYZ'' ''abcdefghijklmnopqrstuvwxyz'') c of
        Some d \<Rightarrow> d
      | None \<Rightarrow> c)"

definition lower :: "string \<Rightarrow> string" where
  "lower s = map lower_char s"

text \<open>
  An \<^verbatim>\<open>Optional[str]\<close> is a \<open>string option\<close>. \<open>truthy\<close> is its truth value in an \<^verbatim>\<open>if\<close>
  (\<^verbatim>\<open>None\<close> and \<^verbatim>\<open>""\<close> are false), \<open>or_empty\<close> is \<^verbatim>\<open>x or ""\<close>.
\<close>

definition truthy :: "string option \<Rightarrow> bool" where
  "truthy x = (case x of None \<Rightarrow> False | Some t \<Rightarrow> t \<noteq> [])"

definition or_empty :: "string option \<Rightarrow> string" where
  "or_empty x = (case x of None \<Rightarrow> [] | Some t \<Rightarrow> (if t = [] then [] else t))"

subsection \<open>The outside world and the trace\<close>

text \<open>
  Printed lines that the trace keeps. The source prints them with an icon and Korean text;
  one constructor stands for one format string:
  \<^item> \<open>Status_running name state\<close>: the check-mark line \<^verbatim>\<open>{service_name}: {state}\<close>;
  \<^item> \<open>Status_not_running name state\<close>: the cross-mark line \<^verbatim>\<open>{service_name}: {state}\<close>;
  \<^item> \<open>Status_stopped name\<close>: the pause-mark line \<^verbatim>\<open>{service_name}:\<close> followed by the fixed
    word for "stopped";
  \<^item> \<open>Log_output out\<close>: \<^verbatim>\<open>print(stdout)\<close>;
  \<^item> \<open>Logs_unavailable\<close>: the fixed cross-mark line "cannot fetch the logs";
  \<^item> \<open>Error_detail err\<close>: the line "error:" followed by \<^verbatim>\<open>{stderr}\<close>;
  \<^item> \<open>Port_connected name port\<close>, \<open>Port_failed name port\<close>, \<open>Port_error name port\<close>: the three
    lines of the port probe;
  \<^item> \<open>Post_check_warning\<close>: the fixed warning line of the bring-up workflows, "some service
    tests failed, look at the logs".
\<close>

datatype line =
    Status_running string string
  | Status_not_running string string
  | Status_stopped string
  | Log_output string
  | Logs_unavailable
  | Error_detail string
  | Port_connected string nat
  | Port_failed string nat
  | Port_error string nat
  | Post_check_warning

datatype event =
    Run string      \<comment> \<open>\<^verbatim>\<open>subprocess.run(command, shell=True, ...)\<close>\<close>
  | Connect nat     \<comment> \<open>\<^verbatim>\<open>sock.connect_ex(('localhost', port))\<close>\<close>
  | Read            \<comment> \<open>\<^verbatim>\<open>input(...)\<close>\<close>
  | Print line

text \<open>
  What a spawned command does: it runs to the end with an exit status and the text it wrote
  to its standard output and standard error, or \<^verbatim>\<open>subprocess.run\<close> itself raises (the shell
  cannot be started, the output is not valid UTF-8) with the message \<^verbatim>\<open>str(e)\<close>.
\<close>

datatype proc = Exited int string string | Raised string

text \<open>
  What \<^verbatim>\<open>json.loads\<close> gives for a line. \<open>JObject fs\<close> is a JSON object, \<open>fs\<close> its string-valued
  members (the declared type of the status mapping is \<^verbatim>\<open>Dict[str, str]\<close>: the members
  \<^verbatim>\<open>Service\<close> and \<^verbatim>\<open>State\<close> are strings when present). \<open>JOther\<close> is any other JSON value:
  an array, a string, a number, \<^verbatim>\<open>true\<close>, \<^verbatim>\<open>false\<close>, \<^verbatim>\<open>null\<close>; none of them has a method
  \<^verbatim>\<open>get\<close>.
\<close>

datatype json = JObject "(string \<times> string) list" | JOther

datatype loaded =
    JSONDecodeError     \<comment> \<open>the line is not JSON\<close>
  | OtherError          \<comment> \<open>\<^verbatim>\<open>json.loads\<close> raises something else, such as \<^verbatim>\<open>RecursionError\<close>\<close>
  | Loaded json

text \<open>What \<^verbatim>\<open>input()\<close> does: it returns the line typed, or raises one of the two.\<close>

datatype input = Entered string | EOFError | KeyboardInterrupt

record world =
  process :: "event list \<Rightarrow> string \<Rightarrow> proc"
  path_exists :: "string \<Rightarrow> bool"
  connect_ex :: "event list \<Rightarrow> nat \<Rightarrow> int option"
  json_loads :: "string \<Rightarrow> loaded"
  user_input :: "event list \<Rightarrow> input"

text \<open>
  The first argument of \<open>process\<close>, \<open>connect_ex\<close> and \<open>user_input\<close> is the trace so far: the
  same command may answer differently after other commands have run. \<open>connect_ex\<close> gives the
  error number (0 for a connection), or \<open>None\<close> when creating or connecting the socket raises.
\<close>

definition invocations :: "event list \<Rightarrow> string list" where
  "invocations tr = concat (map (\<lambda>e. case e of Run c \<Rightarrow> [c] | _ \<Rightarrow> []) tr)"

definition probes :: "event list \<Rightarrow> nat list" where
  "probes tr = concat (map (\<lambda>e. case e of Connect p \<Rightarrow> [p] | _ \<Rightarrow> []) tr)"

definition printed :: "event list \<Rightarrow> line list" where
  "printed tr = concat (map (\<lambda>e. case e of Print l \<Rightarrow> [l] | _ \<Rightarrow> []) tr)"

subsection \<open>\<^verbatim>\<open>subprocess.run\<close>\<close>

text \<open>
  The library call as the script uses it (\<^verbatim>\<open>shell=True, text=True\<close>). Without
  \<^verbatim>\<open>capture_output\<close> the two output attributes are \<^verbatim>\<open>None\<close>. With \<^verbatim>\<open>check\<close> a non-zero exit
  status raises \<^verbatim>\<open>CalledProcessError\<close>, which carries the same three values.
\<close>

datatype py_exn =
    CalledProcessError int "string option" "string option"
  | Exception string

definition subprocess_run ::
  "proc \<Rightarrow> bool \<Rightarrow> bool \<Rightarrow> py_exn + (int \<times> string option \<times> string option)" where
  "subprocess_run p check capture_output =
     (case p of
        Raised msg \<Rightarrow> Inl (Exception msg)
      | Exited rc out err \<Rightarrow>
          (let so = (if capture_output then Some out else None);
               se = (if capture_output then Some err else None)
           in if check \<and> rc \<noteq> 0 then Inl (CalledProcessError rc so se)
              else Inr (rc, so, se)))"

subsection \<open>\<^verbatim>\<open>ServiceManager\<close>\<close>

record manager =
  project_root :: string
  compose_file :: string
  is_windows :: bool
  services :: "(string \<times> string) list"
  service_mapping :: "(string \<times> string) list"

text \<open>\<^verbatim>\<open>Path / name\<close>, on path strings.\<close>

definition joinpath :: "string \<Rightarrow> string \<Rightarrow> string" where
  "joinpath p name = p @ ''/'' @ name"

text \<open>
  \<^verbatim>\<open>__init__\<close>: the project root is the parent of the script's directory and
  \<^verbatim>\<open>platform.system()\<close> tells whether this is Windows; both come from outside.
\<close>

definition init :: "string \<Rightarrow> bool \<Rightarrow> manager" where
  "init root windows =
     \<lparr> project_root = root,
       compose_file = joinpath (joinpath root ''servers'') ''docker-compose.dev.yml'',
       is_windows = windows,
       services =
         [(''page-server'', ''Page Server (Next.js)''),
          (''api-server'', ''API Server (FastAPI)''),
          (''db-server'', ''Database Server (PostgreSQL)''),
          (''nginx'', ''Nginx (Reverse Proxy)''),
          (''redis'', ''Redis (Cache)'')],
       service_mapping =
         [(''servers-page-server-1'', ''page-server''),
          (''servers-api-server-1'', ''api-server''),
          (''servers-db-server-1'', ''db-server''),
          (''servers-nginx-1'', ''nginx''),
          (''servers-redis-1'', ''redis'')] \<rparr>"

text \<open>
  \<^verbatim>\<open>run_command(command, check, capture_output)\<close>. The source's defaults are
  \<^verbatim>\<open>check=True, capture_output=False\<close>; callers below pass them explicitly. The two branches
  on \<^verbatim>\<open>is_windows\<close> are the same call, as in the source.
\<close>

definition run_command ::
  "manager \<Rightarrow> world \<Rightarrow> event list \<Rightarrow> string \<Rightarrow> bool \<Rightarrow> bool
     \<Rightarrow> (int \<times> string option \<times> string option) \<times> event list" where
  "run_command m w tr command check capture_output =
     (let result =
            (if is_windows m then subprocess_run (process w tr command) check capture_output
             else subprocess_run (process w tr command) check capture_output)
      in ((case result of
             Inr (returncode, out, err) \<Rightarrow> (returncode, out, err)
           | Inl (CalledProcessError returncode out err) \<Rightarrow>
               (returncode, Some (or_empty out), Some (or_empty err))
           | Inl (Exception msg) \<Rightarrow> (- 1, Some [], Some msg)),
          tr @ [Run command]))"

definition check_docker :: "manager \<Rightarrow> world \<Rightarrow> event list \<Rightarrow> bool \<times> event list" where
  "check_docker m w tr =
     (let ((returncode, out, err), tr1) = run_command m w tr ''docker --version'' False False
      in if returncode = 0 then
           (let ((returncode2, out2, err2), tr2) = run_command m w tr1 ''docker info'' False False
            in if returncode2 = 0 then (True, tr2) else (False, tr2))
         else (False, tr1))"

definition check_compose_file :: "manager \<Rightarrow> world \<Rightarrow> bool" where
  "check_compose_file m w = (if \<not> path_exists w (compose_file m) then False else True)"

definition compose :: "manager \<Rightarrow> string \<Rightarrow> string" where
  "compose m rest = ''docker compose -f '' @ compose_file m @ '' '' @ rest"

definition build_service :: "manager \<Rightarrow> world \<Rightarrow> event list \<Rightarrow> string \<Rightarrow> bool \<times> event list" where
  "build_service m w tr service =
     (let command = compose m (''build '' @ service);
          ((returncode, out, err), tr1) = run_command m w tr command True False
      in if returncode = 0 then (True, tr1) else (False, tr1))"

definition run_service :: "manager \<Rightarrow> world \<Rightarrow> event list \<Rightarrow> string \<Rightarrow> bool \<times> event list" where
  "run_service m w tr service =
     (let command = compose m (''up -d '' @ service);
          ((returncode, out, err), tr1) = run_command m w tr command True False
      in if returncode = 0 then (True, tr1) else (False, tr1))"

definition stop_service :: "manager \<Rightarrow> world \<Rightarrow> event list \<Rightarrow> string \<Rightarrow> bool \<times> event list" where
  "stop_service m w tr service =
     (let command = compose m (''stop '' @ service);
          ((returncode, out, err), tr1) = run_command m w tr command True False
      in if returncode = 0 then (True, tr1) else (False, tr1))"

subsection \<open>\<^verbatim>\<open>get_service_status\<close>\<close>

text \<open>\<^verbatim>\<open>d.get(key, default)\<close> on a dictionary with string values.\<close>

definition dict_get :: "(string \<times> string) list \<Rightarrow> string \<Rightarrow> string \<Rightarrow> string" where
  "dict_get d key dflt = (case map_of d key of Some v \<Rightarrow> v | None \<Rightarrow> dflt)"

text \<open>
  The status dictionary is an association list: \<^verbatim>\<open>status[k] = v\<close> is \<open>AList.update k v\<close>
  (a new key goes to the end, an old key keeps its place), \<^verbatim>\<open>k in status\<close> and \<^verbatim>\<open>status[k]\<close>
  are \<open>map_of status k\<close>, and \<^verbatim>\<open>not status\<close> is \<open>status = []\<close>.

  The loop over the lines of the structured output. \<^verbatim>\<open>json.JSONDecodeError\<close> is caught inside
  the loop and the loop goes on. Any other exception leaves the loop for the handler around
  it: that is what happens when \<^verbatim>\<open>json.loads\<close> returns a value that is not an object, since
  \<^verbatim>\<open>container.get\<close> raises \<^verbatim>\<open>AttributeError\<close>. The entries stored before that stay.
\<close>

fun parse_json_lines ::
  "(string \<Rightarrow> loaded) \<Rightarrow> (string \<times> string) list \<Rightarrow> string list \<Rightarrow> (string \<times> string) list" where
  "parse_json_lines loads status [] = status"
| "parse_json_lines loads status (line # lines) =
     (if strip line \<noteq> [] then
        (case loads (strip line) of
           JSONDecodeError \<Rightarrow> parse_json_lines loads status lines
         | OtherError \<Rightarrow> status
         | Loaded JOther \<Rightarrow> status
         | Loaded (JObject container) \<Rightarrow>
             (let service_name = dict_get container ''Service'' [];
                  state = dict_get container ''State'' []
              in if service_name \<noteq> []
                 then parse_json_lines loads (AList.update service_name state status) lines
                 else parse_json_lines loads status lines))
      else parse_json_lines loads status lines)"

text \<open>The body of the loop over the lines of the plain output, and the loop.\<close>

definition parse_text_line ::
  "(string \<times> string) list \<Rightarrow> (string \<times> string) list \<Rightarrow> string \<Rightarrow> (string \<times> string) list" where
  "parse_text_line mapping status line =
     (if strip line \<noteq> [] then
        (let parts = split_ws line
         in if length parts \<ge> 2 then
              (let service_name = parts ! 0
               in if list_ex (\<lambda>status_word. str_contains status_word line)
                       [''Up'', ''Running'', ''Started'']
                  then (case map_of mapping service_name of
                          Some mapped_key \<Rightarrow> AList.update mapped_key ''Up'' status
                        | None \<Rightarrow> AList.update service_name ''Up'' status)
                  else status)
            else status)
      else status)"

fun parse_text_lines ::
  "(string \<times> string) list \<Rightarrow> (string \<times> string) list \<Rightarrow> string list \<Rightarrow> (string \<times> string) list" where
  "parse_text_lines mapping status [] = status"
| "parse_text_lines mapping status (line # lines) =
     parse_text_lines mapping (parse_text_line mapping status line) lines"

text \<open>
  Both commands are run with \<^verbatim>\<open>capture_output=True\<close> and the default \<^verbatim>\<open>check=True\<close>.
  The two passes take the triple that \<open>run_command\<close> returned. Where the source tests
  \<^verbatim>\<open>returncode == 0 and stdout\<close> and then uses \<^verbatim>\<open>stdout\<close>, the text used is \<open>or_empty out\<close>,
  which is \<open>out\<close> itself when \<open>out\<close> is truthy. \<^verbatim>\<open>lines[1:]\<close> is \<open>drop 1\<close>.
\<close>

definition structured_pass ::
  "world \<Rightarrow> int \<times> string option \<times> string option \<Rightarrow> (string \<times> string) list" where
  "structured_pass w result =
     (case result of (returncode, out, err) \<Rightarrow>
        (if returncode = 0 \<and> truthy out
         then parse_json_lines (json_loads w) [] (split_on CHR 0x0A (strip (or_empty out)))
         else []))"

definition fallback_pass ::
  "manager \<Rightarrow> int \<times> string option \<times> string option \<Rightarrow> (string \<times> string) list
     \<Rightarrow> (string \<times> string) list" where
  "fallback_pass m result status =
     (case result of (returncode, out, err) \<Rightarrow>
        (if returncode = 0 \<and> truthy out
         then parse_text_lines (service_mapping m) status
                (drop 1 (split_on CHR 0x0A (strip (or_empty out))))
         else status))"

definition get_service_status ::
  "manager \<Rightarrow> world \<Rightarrow> event list \<Rightarrow> (string \<times> string) list \<times> event list" where
  "get_service_status m w tr =
     (let command = compose m ''ps --format json'';
          (result, tr1) = run_command m w tr command True True;
          status = structured_pass w result
      in if status = [] then
           (let command2 = compose m ''ps'';
                (result2, tr2) = run_command m w tr1 command2 True True
            in (fallback_pass m result2 status, tr2))
         else (status, tr1))"

subsection \<open>\<^verbatim>\<open>show_service_status\<close>\<close>

text \<open>\<^verbatim>\<open>any(running_state in state.lower() for running_state in ['up', 'running', 'started'])\<close>\<close>

definition is_running_state :: "string \<Rightarrow> bool" where
  "is_running_state state =
     list_ex (\<lambda>running_state. str_contains running_state (lower state))
       [''up'', ''running'', ''started'']"

text \<open>The line printed for one item \<^verbatim>\<open>(service, service_name)\<close> of the registry.\<close>

definition status_line :: "(string \<times> string) list \<Rightarrow> string \<times> string \<Rightarrow> line" where
  "status_line status item =
     (case item of (service, service_name) \<Rightarrow>
        (case map_of status service of
           Some state \<Rightarrow>
             (if is_running_state state then Status_running service_name state
              else Status_not_running service_name state)
         | None \<Rightarrow> Status_stopped service_name))"

definition show_service_status :: "manager \<Rightarrow> world \<Rightarrow> event list \<Rightarrow> event list" where
  "show_service_status m w tr =
     (let (status, tr1) = get_service_status m w tr
      in tr1 @ map (\<lambda>item. Print (status_line status item)) (services m))"

subsection \<open>Environment check, build, start, health check\<close>

definition required_files :: "manager \<Rightarrow> string list" where
  "required_files m =
     [joinpath (joinpath (project_root m) ''servers'') ''docker-compose.dev.yml'',
      joinpath (joinpath (joinpath (project_root m) ''servers'') ''page_server'') ''Dockerfile.dev'',
      joinpath (joinpath (joinpath (project_root m) ''servers'') ''api_server'') ''pyproject.toml'',
      joinpath (joinpath (joinpath (joinpath (project_root m) ''servers'') ''page_server'') ''nginx'')
        ''nginx.conf'']"

text \<open>
  The loop over the required files returns false at the first one that is missing; then the
  manifest is validated with \<^verbatim>\<open>check=False\<close>.
\<close>

definition test_basic_environment :: "manager \<Rightarrow> world \<Rightarrow> event list \<Rightarrow> bool \<times> event list" where
  "test_basic_environment m w tr =
     (if \<not> list_all (path_exists w) (required_files m) then (False, tr)
      else
        (let command = compose m ''config'';
             ((returncode, out, err), tr1) = run_command m w tr command False False
         in if returncode = 0 then (True, tr1) else (False, tr1)))"

text \<open>
  The port table. The names of the last two entries end, in the source, with the Korean word
  for "external" in parentheses.
\<close>

definition ports :: "(nat \<times> string) list" where
  "ports =
     [(80, ''nginx''),
      (5173, ''page-server''),
      (8002, ''api-server''),
      (15432, ''db-server (external)''),
      (16379, ''redis (external)'')]"

fun probe_ports :: "world \<Rightarrow> event list \<Rightarrow> (nat \<times> string) list \<Rightarrow> event list" where
  "probe_ports w tr [] = tr"
| "probe_ports w tr ((port, service_name) # rest) =
     probe_ports w
       (tr @ [Connect port,
              Print (case connect_ex w tr port of
                       Some result \<Rightarrow>
                         (if result = 0 then Port_connected service_name port
                          else Port_failed service_name port)
                     | None \<Rightarrow> Port_error service_name port)])
       rest"

text \<open>
  The loop over the registry keys sets \<^verbatim>\<open>all_running\<close> to false at every key that is missing
  from the status or whose state is not a running one; it has no other effect that the trace
  keeps.
\<close>

definition test_services :: "manager \<Rightarrow> world \<Rightarrow> event list \<Rightarrow> bool \<times> event list" where
  "test_services m w tr =
     (let (status, tr1) = get_service_status m w tr;
          all_running =
            list_all (\<lambda>service. case map_of status service of
                                   Some state \<Rightarrow> is_running_state state
                                 | None \<Rightarrow> False)
              (map fst (services m))
      in if \<not> all_running then (False, tr1)
         else (True, probe_ports w tr1 ports))"

definition run_all_services :: "manager \<Rightarrow> world \<Rightarrow> event list \<Rightarrow> bool \<times> event list" where
  "run_all_services m w tr =
     (let (env_ok, tr1) = test_basic_environment m w tr
      in if \<not> env_ok then (False, tr1)
         else
           (let (built, tr2) = build_service m w tr1 []
            in if \<not> built then (False, tr2)
               else
                 (let (started, tr3) = run_service m w tr2 []
                  in if \<not> started then (False, tr3)
                     else
                       (let (tested, tr4) = test_services m w tr3
                        in if \<not> tested then (True, tr4 @ [Print Post_check_warning])
                           else (True, tr4)))))"

definition run_single_service ::
  "manager \<Rightarrow> world \<Rightarrow> event list \<Rightarrow> string \<Rightarrow> bool \<times> event list" where
  "run_single_service m w tr service =
     (if service \<notin> set (map fst (services m)) then (False, tr)
      else
        (let (env_ok, tr1) = test_basic_environment m w tr
         in if \<not> env_ok then (False, tr1)
            else
              (let (built, tr2) = build_service m w tr1 service
               in if \<not> built then (False, tr2)
                  else
                    (let (started, tr3) = run_service m w tr2 service
                     in if \<not> started then (False, tr3)
                        else
                          (let (tested, tr4) = test_services m w tr3
                           in if \<not> tested then (True, tr4 @ [Print Post_check_warning])
                              else (True, tr4))))))"

definition stop_all_services :: "manager \<Rightarrow> world \<Rightarrow> event list \<Rightarrow> bool \<times> event list" where
  "stop_all_services m w tr =
     (let command = compose m ''down --remove-orphans'';
          ((returncode, out, err), tr1) = run_command m w tr command True False
      in if returncode = 0 then (True, tr1) else (False, tr1))"

subsection \<open>\<^verbatim>\<open>show_logs\<close>\<close>

text \<open>The argument is an \<^verbatim>\<open>Optional[str]\<close>; \<^verbatim>\<open>if service:\<close> is its truth value.\<close>

definition show_logs :: "manager \<Rightarrow> world \<Rightarrow> event list \<Rightarrow> string option \<Rightarrow> event list" where
  "show_logs m w tr service =
     (let command =
            (if truthy service then compose m (''logs --tail=20 '' @ or_empty service)
             else compose m ''logs --tail=20'');
          ((returncode, out, err), tr1) = run_command m w tr command True True
      in if returncode = 0 \<and> truthy out then tr1 @ [Print (Log_output (or_empty out))]
         else tr1 @ [Print Logs_unavailable]
                  @ (if truthy err then [Print (Error_detail (or_empty err))] else []))"

subsection \<open>The interactive menu\<close>

text \<open>\<^verbatim>\<open>choice.isdigit()\<close> and \<^verbatim>\<open>int(choice)\<close> on ASCII digits.\<close>

definition isdigit :: "string \<Rightarrow> bool" where
  "isdigit s = (s \<noteq> [] \<and> list_all (\<lambda>c. c \<in> set ''0123456789'') s)"

definition digit_value :: "char \<Rightarrow> nat" where
  "digit_value c = (case map_of (zip ''0123456789'' [0 ..< 10]) c of Some d \<Rightarrow> d | None \<Rightarrow> 0)"

definition int_of_digits :: "string \<Rightarrow> nat" where
  "int_of_digits s = foldl (\<lambda>n c. 10 * n + digit_value c) 0 s"

text \<open>
  \<^verbatim>\<open>show_service_selection_menu\<close>. Both handlers of its \<^verbatim>\<open>try\<close> print a line and return, so an
  interrupt or an end of input at the prompt gives the trace with the read alone; so does the
  \<^verbatim>\<open>IndexError\<close> of \<^verbatim>\<open>service_list[int(choice) - 1]\<close> on a registry with fewer entries than
  the number chosen.
\<close>

definition show_service_selection_menu :: "manager \<Rightarrow> world \<Rightarrow> event list \<Rightarrow> event list" where
  "show_service_selection_menu m w tr =
     (case user_input w tr of
        KeyboardInterrupt \<Rightarrow> tr @ [Read]
      | EOFError \<Rightarrow> tr @ [Read]
      | Entered text \<Rightarrow>
          (let choice = strip text
           in if choice = ''0'' then tr @ [Read]
              else if isdigit choice \<and> 1 \<le> int_of_digits choice \<and> int_of_digits choice \<le> 5
              then
                (let service_list = map fst (services m)
                 in if int_of_digits choice - 1 < length service_list
                    then snd (run_single_service m w (tr @ [Read])
                                (service_list ! (int_of_digits choice - 1)))
                    else tr @ [Read])
              else tr @ [Read]))"

text \<open>
  One round of the \<^verbatim>\<open>while True\<close> loop of \<^verbatim>\<open>show_menu\<close>: the first component says whether
  the loop is left (\<^verbatim>\<open>break\<close>). \<^verbatim>\<open>KeyboardInterrupt\<close> leaves it; any other exception, here the
  \<^verbatim>\<open>EOFError\<close> of \<^verbatim>\<open>input()\<close>, is printed and the loop goes round again.
\<close>

definition menu_choice :: "manager \<Rightarrow> world \<Rightarrow> event list \<Rightarrow> string \<Rightarrow> event list" where
  "menu_choice m w tr choice =
     (if choice = ''1'' then snd (run_all_services m w tr)
      else if choice = ''2'' then show_service_selection_menu m w tr
      else if choice = ''3'' then show_service_status m w tr
      else if choice = ''4'' then snd (test_services m w tr)
      else if choice = ''5'' then show_logs m w tr None
      else if choice = ''6'' then snd (stop_all_services m w tr)
      else tr)"

definition menu_round :: "manager \<Rightarrow> world \<Rightarrow> event list \<Rightarrow> bool \<times> event list" where
  "menu_round m w tr =
     (case user_input w tr of
        KeyboardInterrupt \<Rightarrow> (True, tr @ [Read])
      | EOFError \<Rightarrow> (False, tr @ [Read])
      | Entered text \<Rightarrow>
          (let choice = strip text
           in if choice = ''0'' then (True, tr @ [Read])
              else
                (let tr1 = menu_choice m w (tr @ [Read]) choice
                 in (case user_input w tr1 of
                       KeyboardInterrupt \<Rightarrow> (True, tr1 @ [Read])
                     | EOFError \<Rightarrow> (False, tr1 @ [Read])
                     | Entered ignored \<Rightarrow> (False, tr1 @ [Read])))))"

text \<open>The loop may go on for ever: \<open>None\<close> is the menu that is never left.\<close>

partial_function (option) show_menu :: "manager \<Rightarrow> world \<Rightarrow> event list \<Rightarrow> event list option" where
  "show_menu m w tr =
     (let r = menu_round m w tr in if fst r then Some (snd r) else show_menu m w (snd r))"

subsection \<open>\<^verbatim>\<open>main\<close>\<close>

text \<open>
  The nine \<^verbatim>\<open>store_true\<close> flags of the parser, and what \<^verbatim>\<open>parser.parse_args()\<close> does with the
  command line: \<^verbatim>\<open>--help\<close> prints the help and exits with status 0, a command line the parser
  rejects (an option it does not define, such as the \<^verbatim>\<open>--test\<close> of the module's docstring)
  prints the usage and exits with status 2, and otherwise the flags are returned.
\<close>

record args =
  arg_all :: bool
  arg_page_server :: bool
  arg_api_server :: bool
  arg_db_server :: bool
  arg_nginx :: bool
  arg_redis :: bool
  arg_stop :: bool
  arg_status :: bool
  arg_logs :: bool

datatype parse_args = Help_exit | Usage_error | Namespace args

text \<open>
  The result is the exit status of the process and the trace, or \<open>None\<close> when the process
  never exits. \<^verbatim>\<open>sys.exit(1)\<close> gives 1; returning from \<^verbatim>\<open>main\<close> gives 0.
\<close>

definition main ::
  "string \<Rightarrow> bool \<Rightarrow> world \<Rightarrow> parse_args \<Rightarrow> event list \<Rightarrow> (int \<times> event list) option" where
  "main root windows w parsed tr =
     (case parsed of
        Help_exit \<Rightarrow> Some (0, tr)
      | Usage_error \<Rightarrow> Some (2, tr)
      | Namespace a \<Rightarrow>
          (let manager = init root windows;
               (docker_ok, tr1) = check_docker manager w tr
           in if \<not> docker_ok then Some (1, tr1)
              else if \<not> check_compose_file manager w then Some (1, tr1)
              else if arg_all a then Some (0, snd (run_all_services manager w tr1))
              else if arg_page_server a
                then Some (0, snd (run_single_service manager w tr1 ''page-server''))
              else if arg_api_server a
                then Some (0, snd (run_single_service manager w tr1 ''api-server''))
              else if arg_db_server a
                then Some (0, snd (run_single_service manager w tr1 ''db-server''))
              else if arg_nginx a
                then Some (0, snd (run_single_service manager w tr1 ''nginx''))
              else if arg_redis a
                then Some (0, snd (run_single_service manager w tr1 ''redis''))
              else if arg_stop a then Some (0, snd (stop_all_services manager w tr1))
              else if arg_status a then Some (0, show_service_status manager w tr1)
              else if arg_logs a then Some (0, show_logs manager w tr1 None)
              else (case show_menu manager w tr1 of
                      None \<Rightarrow> None
                    | Some tr2 \<Rightarrow> Some (0, tr2))))"

subsection \<open>Shorthand for the statements\<close>

text \<open>
  The test \<^verbatim>\<open>any(status_word in line for status_word in ['Up', 'Running', 'Started'])\<close> and the
  translation of a container name through the alias table, written as in \<open>parse_text_line\<close>.
\<close>

abbreviation has_status_word :: "string \<Rightarrow> bool" where
  "has_status_word line \<equiv>
     list_ex (\<lambda>status_word. str_contains status_word line) [''Up'', ''Running'', ''Started'']"

abbreviation alias_key :: "(string \<times> string) list \<Rightarrow> string \<Rightarrow> string" where
  "alias_key mapping name \<equiv>
     (case map_of mapping name of Some mapped_key \<Rightarrow> mapped_key | None \<Rightarrow> name)"

text \<open>The condition of the loop of \<^verbatim>\<open>test_services\<close> for one registry key.\<close>

abbreviation reported_up :: "(string \<times> string) list \<Rightarrow> string \<Rightarrow> bool" where
  "reported_up status service \<equiv>
     (case map_of status service of Some state \<Rightarrow> is_running_state state | None \<Rightarrow> False)"

text \<open>Some flag is set; both pre-flight checks of \<^verbatim>\<open>main\<close> pass.\<close>

abbreviation any_flag :: "args \<Rightarrow> bool" where
  "any_flag a \<equiv>
     arg_all a \<or> arg_page_server a \<or> arg_api_server a \<or> arg_db_server a \<or> arg_nginx a \<or>
     arg_redis a \<or> arg_stop a \<or> arg_status a \<or> arg_logs a"

abbreviation preflight_ok :: "manager \<Rightarrow> world \<Rightarrow> event list \<Rightarrow> bool" where
  "preflight_ok m w tr \<equiv> fst (check_docker m w tr) \<and> check_compose_file m w"

subsection \<open>Example worlds\<close>

text \<open>
  A world whose commands answer by \<open>p\<close> whatever ran before, whose JSON reader is \<open>j\<close>, where
  every path exists or none does, where port 80 accepts the connection, the probe of port
  5173 raises and every other port refuses, and where the operator types \<^verbatim>\<open>0\<close>.
\<close>

definition example_world :: "(string \<Rightarrow> proc) \<Rightarrow> (string \<Rightarrow> loaded) \<Rightarrow> bool \<Rightarrow> world" where
  "example_world p j files =
     \<lparr> process = (\<lambda>tr. p), path_exists = (\<lambda>path. files),
       connect_ex = (\<lambda>tr port. if port = 80 then Some 0
                                else if port = 5173 then None else Some 111),
       json_loads = j, user_input = (\<lambda>tr. Entered ''0'') \<rparr>"

text \<open>
  A tool that does not know \<^verbatim>\<open>ps --format json\<close> and prints \<open>table\<close> for the plain \<^verbatim>\<open>ps\<close>, for
  the manager \<open>init ''/app'' False\<close>; and a table as the tool prints it.
\<close>

definition text_only_tool :: "string \<Rightarrow> string \<Rightarrow> proc" where
  "text_only_tool table command =
     (if command = ''docker compose -f /app/servers/docker-compose.dev.yml ps''
      then Exited 0 table []
      else if command = ''docker compose -f /app/servers/docker-compose.dev.yml ps --format json''
      then Exited 1 [] ''unknown flag: --format''
      else Exited 0 [] [])"

definition ps_table :: string where
  "ps_table =
     ''NAME                    IMAGE        STATUS\<newline>'' @
     ''servers-page-server-1   node:20      Up 5 minutes\<newline>'' @
     ''servers-db-server-1     postgres:16  Exited (1) 2 minutes ago\<newline>'' @
     ''adminer-1               adminer      Up 2 hours\<newline>''"

text \<open>
  Structured output. \<open>json_line service state\<close> is the text of a JSON object with the two
  members, \<open>example_loads\<close> reads such lines for the five registry keys and the states
  \<^verbatim>\<open>running\<close> and \<^verbatim>\<open>exited\<close> as \<^verbatim>\<open>json.loads\<close> does, reads the two array texts as arrays, and
  takes every other text used below for what it is, not JSON. \<open>json_tool out\<close> prints \<open>out\<close> for
  \<^verbatim>\<open>ps --format json\<close> and nothing for any other command, all with exit status 0.
\<close>

definition quoted :: "string \<Rightarrow> string" where
  "quoted s = CHR 0x22 # s @ [CHR 0x22]"

definition json_line :: "string \<Rightarrow> string \<Rightarrow> string" where
  "json_line service state =
     ''{'' @ quoted ''Service'' @ '': '' @ quoted service @ '', '' @
            quoted ''State'' @ '': '' @ quoted state @ ''}''"

definition example_loads :: "string \<Rightarrow> loaded" where
  "example_loads s =
     (if s = ''[]'' \<or> s = ''['' @ json_line ''page-server'' ''Up'' @ '']'' then Loaded JOther
      else (case find (\<lambda>(service, state). s = json_line service state)
                   (List.product [''page-server'', ''api-server'', ''db-server'', ''nginx'', ''redis'']
                      [''running'', ''exited''])
            of Some (service, state) \<Rightarrow> Loaded (JObject [(''Service'', service), (''State'', state)])
             | None \<Rightarrow> JSONDecodeError))"

definition json_tool :: "string \<Rightarrow> string \<Rightarrow> proc" where
  "json_tool out command =
     (if command = ''docker compose -f /app/servers/docker-compose.dev.yml ps --format json''
      then Exited 0 out []
      else Exited 0 [] [])"

definition all_running_output :: string where
  "all_running_output =
     json_line ''page-server'' ''running'' @ ''\<newline>'' @
     json_line ''api-server'' ''running'' @ ''\<newline>'' @
     json_line ''db-server'' ''running'' @ ''\<newline>'' @
     json_line ''nginx'' ''running'' @ ''\<newline>'' @
     json_line ''redis'' ''running'' @ ''\<newline>''"

text \<open>A tool that fails, with exit status 1, on the commands that contain \<open>word\<close>.\<close>

definition tool_failing :: "string \<Rightarrow> string \<Rightarrow> proc" where
  "tool_failing word command =
     (if str_contains word command then Exited 1 [] ''failed'' else Exited 0 [] [])"

text \<open>The command line without any flag.\<close>

definition no_flags :: args where
  "no_flags =
     \<lparr> arg_all = False, arg_page_server = False, arg_api_server = False, arg_db_server = False,
       arg_nginx = False, arg_redis = False, arg_stop = False, arg_status = False,
       arg_logs = False \<rparr>"

section \<open>Properties\<close>

subsection \<open>\<^verbatim>\<open>run_command\<close>\<close>

lemma snd_run_command: "snd (run_command m w tr c ch cap) = tr @ [Run c]"
  by (simp add: run_command_def)

lemma fst_run_command_Raised:
  "process w tr c = Raised msg \<Longrightarrow> fst (run_command m w tr c ch cap) = (- 1, Some [], Some msg)"
  by (simp add: run_command_def subprocess_run_def)

lemma fst_run_command_Exited:
  "process w tr c = Exited rc out err \<Longrightarrow>
   fst (run_command m w tr c ch cap) =
     (if ch \<and> rc \<noteq> 0 then (rc, Some (if cap then out else []), Some (if cap then err else []))
      else (rc, if cap then Some out else None, if cap then Some err else None))"
  by (simp add: run_command_def subprocess_run_def or_empty_def Let_def)

lemma run_command_eq: "run_command m w tr c ch cap = (fst (run_command m w tr c ch cap), tr @ [Run c])"
  by (simp add: run_command_def)

lemma returncode_zero:
  "(fst (fst (run_command m w tr c ch cap)) = 0) = (\<exists>out err. process w tr c = Exited 0 out err)"
  by (cases "process w tr c") (auto simp: fst_run_command_Raised fst_run_command_Exited)

text \<open>
  Claim C6, as the code has it. \<open>run_command\<close> returns a triple for every outcome of the spawned
  process, and records the command. When \<^verbatim>\<open>subprocess.run\<close> raises, the triple is \<open>-1\<close>, the
  empty string and the message of the exception as the error text. When the process exits
  with a non-zero status under \<^verbatim>\<open>check=True\<close>, both output fields are strings, empty where
  the output was not captured. With \<^verbatim>\<open>capture_output=True\<close> both output fields are the
  strings the process wrote.
\<close>

theorem run_command_never_raises:
  "(process w tr c = Raised msg \<longrightarrow> fst (run_command m w tr c ch cap) = (- 1, Some [], Some msg)) \<and>
   (process w tr c = Exited rc out err \<and> rc \<noteq> 0 \<and> ch \<longrightarrow>
      fst (run_command m w tr c ch cap) = (rc, Some (if cap then out else []), Some (if cap then err else []))) \<and>
   (process w tr c = Exited rc out err \<and> cap \<longrightarrow>
      fst (run_command m w tr c ch cap) = (rc, Some out, Some err)) \<and>
   snd (run_command m w tr c ch cap) = tr @ [Run c]"
  by (simp add: fst_run_command_Raised fst_run_command_Exited snd_run_command)

theorem run_command_never_raises_witness:
  "fst (run_command (init ''/app'' False)
          (example_world (\<lambda>c. Raised ''[Errno 12] Cannot allocate memory'') (\<lambda>s. JSONDecodeError) True)
          [] ''docker info'' True False) = (- 1, Some [], Some ''[Errno 12] Cannot allocate memory'') \<and>
   fst (run_command (init ''/app'' False)
          (example_world (\<lambda>c. Exited 1 ''building'' ''no such service'') (\<lambda>s. JSONDecodeError) True)
          [] ''docker compose build x'' True False) = (1, Some [], Some []) \<and>
   fst (run_command (init ''/app'' False)
          (example_world (\<lambda>c. Exited 1 ''building'' ''no such service'') (\<lambda>s. JSONDecodeError) True)
          [] ''docker compose build x'' False True) = (1, Some ''building'', Some ''no such service'')"
  using run_command_never_raises [where w = "example_world (\<lambda>c. Raised ''[Errno 12] Cannot allocate memory'') (\<lambda>s. JSONDecodeError) True"
      and tr = "[]" and c = "''docker info''" and msg = "''[Errno 12] Cannot allocate memory''"
      and m = "init ''/app'' False" and ch = True and cap = False]
    run_command_never_raises [where w = "example_world (\<lambda>c. Exited 1 ''building'' ''no such service'') (\<lambda>s. JSONDecodeError) True"
      and tr = "[]" and c = "''docker compose build x''" and rc = 1 and out = "''building''"
      and err = "''no such service''" and m = "init ''/app'' False" and ch = True and cap = False]
    run_command_never_raises [where w = "example_world (\<lambda>c. Exited 1 ''building'' ''no such service'') (\<lambda>s. JSONDecodeError) True"
      and tr = "[]" and c = "''docker compose build x''" and rc = 1 and out = "''building''"
      and err = "''no such service''" and m = "init ''/app'' False" and ch = False and cap = True]
  by (simp add: example_world_def)

text \<open>
  The claim as written asks for empty output fields after an exception. The error field
  holds the message instead.
\<close>

theorem run_command_stderr_counterexample:
  "snd (snd (fst (run_command (init ''/app'' False)
          (example_world (\<lambda>c. Raised ''[Errno 12] Cannot allocate memory'') (\<lambda>s. JSONDecodeError) True)
          [] ''docker info'' True False))) \<noteq> Some []"
  by (simp add: run_command_def subprocess_run_def example_world_def)

subsection \<open>\<^verbatim>\<open>build_service\<close>, \<^verbatim>\<open>run_service\<close>, \<^verbatim>\<open>stop_service\<close>\<close>

lemma run_command_obtain:
  obtains rc out err where
    "run_command m w tr c ch cap = ((rc, out, err), tr @ [Run c])"
    "(rc = 0) = (\<exists>out' err'. process w tr c = Exited 0 out' err')"
proof -
  obtain rc out err where r: "fst (run_command m w tr c ch cap) = (rc, out, err)"
    by (metis prod_cases3)
  have "run_command m w tr c ch cap = ((rc, out, err), tr @ [Run c])"
    using r run_command_eq [of m w tr c ch cap] by simp
  moreover have "(rc = 0) = (\<exists>out' err'. process w tr c = Exited 0 out' err')"
    using r returncode_zero [of m w tr c ch cap] by simp
  ultimately show ?thesis using that by blast
qed

lemma build_service_eq:
  "build_service m w tr service =
     ((\<exists>out err. process w tr (compose m (''build '' @ service)) = Exited 0 out err),
      tr @ [Run (compose m (''build '' @ service))])"
proof -
  obtain rc out err where
    "run_command m w tr (compose m (''build '' @ service)) True False =
       ((rc, out, err), tr @ [Run (compose m (''build '' @ service))])"
    "(rc = 0) = (\<exists>out' err'. process w tr (compose m (''build '' @ service)) = Exited 0 out' err')"
    by (rule run_command_obtain)
  then show ?thesis by (simp add: build_service_def Let_def)
qed

lemma run_service_eq:
  "run_service m w tr service =
     ((\<exists>out err. process w tr (compose m (''up -d '' @ service)) = Exited 0 out err),
      tr @ [Run (compose m (''up -d '' @ service))])"
proof -
  obtain rc out err where
    "run_command m w tr (compose m (''up -d '' @ service)) True False =
       ((rc, out, err), tr @ [Run (compose m (''up -d '' @ service))])"
    "(rc = 0) = (\<exists>out' err'. process w tr (compose m (''up -d '' @ service)) = Exited 0 out' err')"
    by (rule run_command_obtain)
  then show ?thesis by (simp add: run_service_def Let_def)
qed

lemma stop_service_eq:
  "stop_service m w tr service =
     ((\<exists>out err. process w tr (compose m (''stop '' @ service)) = Exited 0 out err),
      tr @ [Run (compose m (''stop '' @ service))])"
proof -
  obtain rc out err where
    "run_command m w tr (compose m (''stop '' @ service)) True False =
       ((rc, out, err), tr @ [Run (compose m (''stop '' @ service))])"
    "(rc = 0) = (\<exists>out' err'. process w tr (compose m (''stop '' @ service)) = Exited 0 out' err')"
    by (rule run_command_obtain)
  then show ?thesis by (simp add: stop_service_def Let_def)
qed

text \<open>
  Claim C7, as the code has it. The three low-level operations do not look at the registry:
  for every key, registered or not (the empty key stands for all services), each spawns its
  one compose command with the key appended and returns true exactly when that command exits
  with status 0. Only \<^verbatim>\<open>run_single_service\<close> rejects a key that is not in the registry, and it
  does so before anything is spawned.
\<close>

theorem low_level_operations_accept_any_key:
  "build_service m w tr service =
     ((\<exists>out err. process w tr (compose m (''build '' @ service)) = Exited 0 out err),
      tr @ [Run (compose m (''build '' @ service))]) \<and>
   run_service m w tr service =
     ((\<exists>out err. process w tr (compose m (''up -d '' @ service)) = Exited 0 out err),
      tr @ [Run (compose m (''up -d '' @ service))]) \<and>
   stop_service m w tr service =
     ((\<exists>out err. process w tr (compose m (''stop '' @ service)) = Exited 0 out err),
      tr @ [Run (compose m (''stop '' @ service))]) \<and>
   (service \<notin> set (map fst (services m)) \<longrightarrow> run_single_service m w tr service = (False, tr))"
  by (simp add: build_service_eq run_service_eq stop_service_eq run_single_service_def)

theorem low_level_operations_accept_any_key_witness:
  "''test-service'' \<notin> set (map fst (services (init ''/app'' False))) \<and>
   stop_service (init ''/app'' False)
     (example_world (\<lambda>c. Exited 0 [] []) (\<lambda>s. JSONDecodeError) True) [] ''test-service'' =
     (True, [Run ''docker compose -f /app/servers/docker-compose.dev.yml stop test-service'']) \<and>
   run_service (init ''/app'' False)
     (example_world (\<lambda>c. Exited 1 [] ''no such service: test-service'') (\<lambda>s. JSONDecodeError) True)
     [] ''test-service'' =
     (False, [Run ''docker compose -f /app/servers/docker-compose.dev.yml up -d test-service'']) \<and>
   run_single_service (init ''/app'' False)
     (example_world (\<lambda>c. Exited 0 [] []) (\<lambda>s. JSONDecodeError) True) [] ''test-service'' =
     (False, [])"
  using low_level_operations_accept_any_key [of "init ''/app'' False"
      "example_world (\<lambda>c. Exited 0 [] []) (\<lambda>s. JSONDecodeError) True" "[]" "''test-service''"]
    low_level_operations_accept_any_key [of "init ''/app'' False"
      "example_world (\<lambda>c. Exited 1 [] ''no such service: test-service'') (\<lambda>s. JSONDecodeError) True"
      "[]" "''test-service''"]
  by (simp add: example_world_def init_def compose_def joinpath_def)

text \<open>
  The claim as written asks \<^verbatim>\<open>build\<close> to return false on an unregistered key without
  spawning anything. On the key \<^verbatim>\<open>test-service\<close> of the repository's own unit test, with a
  tool that exits with status 0, it spawns the build and returns true.
\<close>

theorem build_unregistered_key_counterexample:
  "''test-service'' \<notin> set (map fst (services (init ''/app'' False))) \<and>
   build_service (init ''/app'' False)
     (example_world (\<lambda>c. Exited 0 [] []) (\<lambda>s. JSONDecodeError) True) [] ''test-service'' =
     (True, [Run ''docker compose -f /app/servers/docker-compose.dev.yml build test-service''])"
  by (simp add: build_service_def run_command_def subprocess_run_def example_world_def
      init_def compose_def joinpath_def)

subsection \<open>\<^verbatim>\<open>show_logs\<close>\<close>

lemma truthy_Some [simp]: "truthy (Some t) = (t \<noteq> [])" and truthy_None [simp]: "truthy None = False"
  by (simp_all add: truthy_def)

lemma or_empty_Some [simp]: "or_empty (Some t) = t" and or_empty_None [simp]: "or_empty None = []"
  by (simp_all add: or_empty_def)

text \<open>
  Claim C9, as the code has it. \<^verbatim>\<open>show_logs\<close> spawns \<^verbatim>\<open>logs --tail=20\<close> for the given key, or
  for all services when the key is \<^verbatim>\<open>None\<close> or empty. It prints the captured output, as it
  is, exactly when the command exits with status 0 and wrote something. In every other case,
  also when the command succeeded and wrote nothing, it prints the error line, followed by
  the error text when there is one.
\<close>

theorem show_logs_output:
  "show_logs m w tr service =
     (let command =
            (case service of
               Some key \<Rightarrow>
                 (if key \<noteq> [] then compose m (''logs --tail=20 '' @ key)
                  else compose m ''logs --tail=20'')
             | None \<Rightarrow> compose m ''logs --tail=20'')
      in tr @ [Run command] @
         (case process w tr command of
            Exited rc out err \<Rightarrow>
              (if rc = 0 \<and> out \<noteq> [] then [Print (Log_output out)]
               else Print Logs_unavailable #
                      (if err \<noteq> [] then [Print (Error_detail err)] else []))
          | Raised msg \<Rightarrow>
              Print Logs_unavailable # (if msg \<noteq> [] then [Print (Error_detail msg)] else [])))"
proof -
  define command where "command =
    (if truthy service then compose m (''logs --tail=20 '' @ or_empty service)
     else compose m ''logs --tail=20'')"
  have c: "command = (case service of
               Some key \<Rightarrow>
                 (if key \<noteq> [] then compose m (''logs --tail=20 '' @ key)
                  else compose m ''logs --tail=20'')
             | None \<Rightarrow> compose m ''logs --tail=20'')"
    by (simp add: command_def split: option.splits)
  have "show_logs m w tr service =
      tr @ [Run command] @
         (case process w tr command of
            Exited rc out err \<Rightarrow>
              (if rc = 0 \<and> out \<noteq> [] then [Print (Log_output out)]
               else Print Logs_unavailable #
                      (if err \<noteq> [] then [Print (Error_detail err)] else []))
          | Raised msg \<Rightarrow>
              Print Logs_unavailable # (if msg \<noteq> [] then [Print (Error_detail msg)] else []))"
  proof (cases "process w tr command")
    case (Exited rc out err)
    then show ?thesis
      unfolding show_logs_def command_def [symmetric] Let_def
      by (simp add: run_command_def subprocess_run_def Let_def)
  next
    case (Raised msg)
    then show ?thesis
      unfolding show_logs_def command_def [symmetric] Let_def
      by (simp add: run_command_def subprocess_run_def Let_def)
  qed
  then show ?thesis by (simp add: c Let_def)
qed

text \<open>
  The claim as written has the error line only for a failed invocation. A command that exits
  with status 0 and writes nothing gets the error line too.
\<close>

theorem show_logs_empty_output_counterexample:
  "show_logs (init ''/app'' False)
     (example_world (\<lambda>c. Exited 0 [] []) (\<lambda>s. JSONDecodeError) True) [] None =
   [Run ''docker compose -f /app/servers/docker-compose.dev.yml logs --tail=20'',
    Print Logs_unavailable]"
  by (simp add: show_logs_def run_command_def subprocess_run_def example_world_def
      init_def compose_def joinpath_def Let_def)

subsection \<open>\<^verbatim>\<open>get_service_status\<close>: the plain-text pass\<close>

lemma split_ws_acc_spaces: "\<forall>c \<in> set s. is_space c \<Longrightarrow> split_ws_acc [] s = []"
  by (induction s) auto

lemma strip_empty_all_spaces:
  assumes "strip s = []"
  shows "\<forall>c \<in> set s. is_space c"
proof -
  have "dropWhile is_space (rev (dropWhile is_space s)) = []"
    using assms by (simp add: strip_def)
  then have all: "\<forall>c \<in> set (dropWhile is_space s). is_space c"
    by (simp add: dropWhile_eq_Nil_conv)
  have "dropWhile is_space s = []"
  proof (rule ccontr)
    assume ne: "dropWhile is_space s \<noteq> []"
    then have "\<not> is_space (hd (dropWhile is_space s))" by (rule hd_dropWhile)
    moreover have "hd (dropWhile is_space s) \<in> set (dropWhile is_space s)" using ne by simp
    ultimately show False using all by blast
  qed
  then show ?thesis by (simp add: dropWhile_eq_Nil_conv)
qed

lemma strip_empty_no_tokens: "strip line = [] \<Longrightarrow> split_ws line = []"
  by (simp add: split_ws_def split_ws_acc_spaces strip_empty_all_spaces)

lemma set_update_subset: "set (AList.update k v al) \<subseteq> insert (k, v) (set al)"
  by (induction al) auto

lemma parse_text_line_few_tokens:
  "length (split_ws line) < 2 \<Longrightarrow> parse_text_line mapping status line = status"
  by (simp add: parse_text_line_def Let_def)

lemma parse_text_line_no_word:
  "\<not> list_ex (\<lambda>status_word. str_contains status_word line) [''Up'', ''Running'', ''Started'']
   \<Longrightarrow> parse_text_line mapping status line = status"
  by (simp add: parse_text_line_def Let_def)

lemma parse_text_line_marks:
  assumes "length (split_ws line) \<ge> 2"
    and "list_ex (\<lambda>status_word. str_contains status_word line) [''Up'', ''Running'', ''Started'']"
  shows "parse_text_line mapping status line =
           AList.update (case map_of mapping (hd (split_ws line)) of
                           Some mapped_key \<Rightarrow> mapped_key
                         | None \<Rightarrow> hd (split_ws line)) ''Up'' status"
proof -
  have ne: "split_ws line \<noteq> []" using assms(1) by auto
  then have "strip line \<noteq> []" using strip_empty_no_tokens by blast
  moreover have "split_ws line ! 0 = hd (split_ws line)" using ne by (simp add: hd_conv_nth)
  ultimately show ?thesis
    using assms by (simp add: parse_text_line_def Let_def split: option.splits)
qed

lemma parse_text_line_entries:
  "set (parse_text_line mapping status line) \<subseteq> set status \<union> {e. snd e = ''Up''}"
proof -
  have "set (AList.update k ''Up'' status) \<subseteq> set status \<union> {e. snd e = ''Up''}" for k
    using set_update_subset [of k "''Up''" status] by auto
  then show ?thesis
    by (auto simp: parse_text_line_def Let_def split: option.splits)
qed

lemma parse_text_lines_entries:
  "set (parse_text_lines mapping status lines) \<subseteq> set status \<union> {e. snd e = ''Up''}"
proof (induction lines arbitrary: status)
  case Nil
  then show ?case by simp
next
  case (Cons line lines)
  have "set (parse_text_lines mapping (parse_text_line mapping status line) lines)
          \<subseteq> set (parse_text_line mapping status line) \<union> {e. snd e = ''Up''}"
    by (rule Cons.IH)
  also have "\<dots> \<subseteq> set status \<union> {e. snd e = ''Up''}"
    using parse_text_line_entries [of mapping status line] by auto
  finally show ?case by simp
qed

lemma parse_text_line_keeps_up:
  "map_of status k = Some ''Up'' \<Longrightarrow> map_of (parse_text_line mapping status line) k = Some ''Up''"
  by (auto simp: parse_text_line_def Let_def update_conv' split: option.splits)

lemma parse_text_lines_keeps_up:
  "map_of status k = Some ''Up'' \<Longrightarrow> map_of (parse_text_lines mapping status lines) k = Some ''Up''"
  by (induction lines arbitrary: status) (simp_all add: parse_text_line_keeps_up)

lemma parse_text_lines_marks:
  assumes "line \<in> set lines" and "length (split_ws line) \<ge> 2"
    and "list_ex (\<lambda>status_word. str_contains status_word line) [''Up'', ''Running'', ''Started'']"
  shows "map_of (parse_text_lines mapping status lines)
           (case map_of mapping (hd (split_ws line)) of
              Some mapped_key \<Rightarrow> mapped_key
            | None \<Rightarrow> hd (split_ws line)) = Some ''Up''"
  using assms(1)
proof (induction lines arbitrary: status)
  case Nil
  then show ?case by simp
next
  case (Cons l lines)
  show ?case
  proof (cases "l = line")
    case True
    have "map_of (parse_text_line mapping status line)
            (case map_of mapping (hd (split_ws line)) of
               Some mapped_key \<Rightarrow> mapped_key
             | None \<Rightarrow> hd (split_ws line)) = Some ''Up''"
      by (simp add: parse_text_line_marks [OF assms(2,3)] update_conv')
    then show ?thesis using True by (simp add: parse_text_lines_keeps_up)
  next
    case False
    then have "line \<in> set lines" using Cons.prems by simp
    then show ?thesis using Cons.IH by simp
  qed
qed

lemma fallback_pass_entries:
  "set (fallback_pass m result []) \<subseteq> {e. snd e = ''Up''}"
  using parse_text_lines_entries [of "service_mapping m" "[]"]
  by (cases result) (auto simp: fallback_pass_def)

lemma get_service_status_eq:
  "get_service_status m w tr =
     (let status = structured_pass w (fst (run_command m w tr (compose m ''ps --format json'') True True))
      in if status = [] then
           (fallback_pass m (fst (run_command m w (tr @ [Run (compose m ''ps --format json'')])
                                    (compose m ''ps'') True True)) status,
            tr @ [Run (compose m ''ps --format json''), Run (compose m ''ps'')])
         else (status, tr @ [Run (compose m ''ps --format json'')]))"
  by (simp add: get_service_status_def Let_def case_prod_beta snd_run_command)

lemma get_service_status_fallback:
  assumes "structured_pass w (fst (run_command m w tr (compose m ''ps --format json'') True True)) = []"
  shows "get_service_status m w tr =
           (fallback_pass m (fst (run_command m w (tr @ [Run (compose m ''ps --format json'')])
                                    (compose m ''ps'') True True)) [],
            tr @ [Run (compose m ''ps --format json''), Run (compose m ''ps'')])"
  unfolding get_service_status_eq Let_def assms by simp

lemma get_service_status_structured:
  assumes "structured_pass w (fst (run_command m w tr (compose m ''ps --format json'') True True)) \<noteq> []"
  shows "get_service_status m w tr =
           (structured_pass w (fst (run_command m w tr (compose m ''ps --format json'') True True)),
            tr @ [Run (compose m ''ps --format json'')])"
  unfolding get_service_status_eq Let_def using assms by simp

lemma fallback_pass_Exited:
  "fallback_pass m (fst (run_command m' w tr c True True)) status =
     (case process w tr c of
        Exited rc out err \<Rightarrow>
          (if rc = 0 \<and> out \<noteq> []
           then parse_text_lines (service_mapping m) status (drop 1 (split_on CHR 0x0A (strip out)))
           else status)
      | Raised msg \<Rightarrow> status)"
  by (cases "process w tr c")
     (simp_all add: fallback_pass_def fst_run_command_Exited fst_run_command_Raised)

lemmas eval_defs = get_service_status_def run_command_def subprocess_run_def example_world_def
  init_def compose_def joinpath_def Let_def structured_pass_def fallback_pass_def
  parse_text_line_def strip_def split_ws_def is_space_def text_only_tool_def ps_table_def

text \<open>
  Claim C10. In the plain-text pass every entry written has the value \<^verbatim>\<open>Up\<close>: this holds for
  the loop started on the empty status, and so for the result of \<^verbatim>\<open>get_service_status\<close>
  whenever the structured pass left the status empty. A line without any of the three words
  leaves the status as it was, and so does a line with fewer than two tokens.
\<close>

theorem fallback_entries_all_up:
  "((k, v) \<in> set (parse_text_lines mapping [] lines) \<longrightarrow> v = ''Up'') \<and>
   (structured_pass w (fst (run_command m w tr (compose m ''ps --format json'') True True)) = [] \<and>
      (k, v) \<in> set (fst (get_service_status m w tr)) \<longrightarrow> v = ''Up'') \<and>
   (\<not> has_status_word line \<longrightarrow> parse_text_line mapping status line = status) \<and>
   (length (split_ws line) < 2 \<longrightarrow> parse_text_line mapping status line = status)"
proof -
  have "(k, v) \<in> set (parse_text_lines mapping [] lines) \<longrightarrow> v = ''Up''"
    using parse_text_lines_entries [of mapping "[]" lines] by auto
  moreover have "structured_pass w (fst (run_command m w tr (compose m ''ps --format json'') True True)) = [] \<and>
      (k, v) \<in> set (fst (get_service_status m w tr)) \<longrightarrow> v = ''Up''"
  proof
    assume h: "structured_pass w (fst (run_command m w tr (compose m ''ps --format json'') True True)) = [] \<and>
      (k, v) \<in> set (fst (get_service_status m w tr))"
    then have "(k, v) \<in> set (fallback_pass m
        (fst (run_command m w (tr @ [Run (compose m ''ps --format json'')]) (compose m ''ps'') True True)) [])"
      using get_service_status_fallback [of w m tr] by simp
    then show "v = ''Up''"
      using fallback_pass_entries [of m
          "fst (run_command m w (tr @ [Run (compose m ''ps --format json'')]) (compose m ''ps'') True True)"]
      by auto
  qed
  ultimately show ?thesis
    using parse_text_line_no_word [of line mapping status]
      parse_text_line_few_tokens [of line mapping status]
    by blast
qed

theorem fallback_entries_all_up_witness:
  "(''adminer-1'', ''Up'') \<in> set (parse_text_lines (service_mapping (init ''/app'' False)) []
       [''servers-page-server-1   node:20      Up 5 minutes'', ''adminer-1   adminer   Up 2 hours'']) \<and>
   structured_pass (example_world (text_only_tool ps_table) (\<lambda>s. JSONDecodeError) True)
     (fst (run_command (init ''/app'' False)
        (example_world (text_only_tool ps_table) (\<lambda>s. JSONDecodeError) True) []
        (compose (init ''/app'' False) ''ps --format json'') True True)) = [] \<and>
   (''page-server'', ''Up'') \<in> set (fst (get_service_status (init ''/app'' False)
        (example_world (text_only_tool ps_table) (\<lambda>s. JSONDecodeError) True) [])) \<and>
   \<not> has_status_word ''servers-db-server-1     postgres:16  Exited (1) 2 minutes ago'' \<and>
   parse_text_line (service_mapping (init ''/app'' False)) [(''page-server'', ''Up'')]
     ''servers-db-server-1     postgres:16  Exited (1) 2 minutes ago'' = [(''page-server'', ''Up'')] \<and>
   length (split_ws ''  Started  '') < 2 \<and> has_status_word ''  Started  '' \<and>
   parse_text_line (service_mapping (init ''/app'' False)) [] ''  Started  '' = []"
proof -
  have a: "(''adminer-1'', ''Up'') \<in> set (parse_text_lines (service_mapping (init ''/app'' False)) []
       [''servers-page-server-1   node:20      Up 5 minutes'', ''adminer-1   adminer   Up 2 hours''])"
    by (simp add: eval_defs)
  have b: "structured_pass (example_world (text_only_tool ps_table) (\<lambda>s. JSONDecodeError) True)
     (fst (run_command (init ''/app'' False)
        (example_world (text_only_tool ps_table) (\<lambda>s. JSONDecodeError) True) []
        (compose (init ''/app'' False) ''ps --format json'') True True)) = []"
    by (simp add: eval_defs or_empty_def)
  have c: "(''page-server'', ''Up'') \<in> set (fst (get_service_status (init ''/app'' False)
        (example_world (text_only_tool ps_table) (\<lambda>s. JSONDecodeError) True) []))"
    by (simp add: eval_defs)
  have d: "\<not> has_status_word ''servers-db-server-1     postgres:16  Exited (1) 2 minutes ago''"
    by simp
  have e: "length (split_ws ''  Started  '') < 2 \<and> has_status_word ''  Started  ''"
    by (simp add: split_ws_def is_space_def)
  show ?thesis
    using a b c d e
      fallback_entries_all_up [of "''adminer-1''" "''Up''" "service_mapping (init ''/app'' False)"
        "[''servers-page-server-1   node:20      Up 5 minutes'', ''adminer-1   adminer   Up 2 hours'']"
        "example_world (text_only_tool ps_table) (\<lambda>s. JSONDecodeError) True" "init ''/app'' False" "[]"
        "''servers-db-server-1     postgres:16  Exited (1) 2 minutes ago''" "[(''page-server'', ''Up'')]"]
      fallback_entries_all_up [of "''adminer-1''" "''Up''" "service_mapping (init ''/app'' False)"
        "[]" "example_world (text_only_tool ps_table) (\<lambda>s. JSONDecodeError) True" "init ''/app'' False" "[]"
        "''  Started  ''" "[]"]
    by simp
qed

text \<open>
  Claim C2, as the code has it. A line with at least two whitespace-separated tokens that
  contains one of the three words stores \<^verbatim>\<open>Up\<close> under the registry key of its first token: the
  alias of the token when the alias table has one, the token itself otherwise. The entry is
  still there at the end of the loop, and in the result of \<^verbatim>\<open>get_service_status\<close> when the
  structured pass left the status empty and the plain \<^verbatim>\<open>ps\<close> exited with status 0.
\<close>

theorem fallback_marks_service_up:
  "(2 \<le> length (split_ws line) \<and> has_status_word line \<longrightarrow>
      parse_text_line mapping status line =
        AList.update (alias_key mapping (hd (split_ws line))) ''Up'' status) \<and>
   (line \<in> set lines \<and> 2 \<le> length (split_ws line) \<and> has_status_word line \<longrightarrow>
      map_of (parse_text_lines mapping status lines) (alias_key mapping (hd (split_ws line))) =
        Some ''Up'') \<and>
   (structured_pass w (fst (run_command m w tr (compose m ''ps --format json'') True True)) = [] \<and>
    process w (tr @ [Run (compose m ''ps --format json'')]) (compose m ''ps'') = Exited 0 out err \<and>
    line \<in> set (drop 1 (split_on CHR 0x0A (strip out))) \<and>
    2 \<le> length (split_ws line) \<and> has_status_word line \<longrightarrow>
      map_of (fst (get_service_status m w tr)) (alias_key (service_mapping m) (hd (split_ws line))) =
        Some ''Up'')"
proof (intro conjI impI)
  assume "2 \<le> length (split_ws line) \<and> has_status_word line"
  then show "parse_text_line mapping status line =
        AList.update (alias_key mapping (hd (split_ws line))) ''Up'' status"
    using parse_text_line_marks [of line mapping status] by blast
next
  assume "line \<in> set lines \<and> 2 \<le> length (split_ws line) \<and> has_status_word line"
  then show "map_of (parse_text_lines mapping status lines) (alias_key mapping (hd (split_ws line))) =
        Some ''Up''"
    using parse_text_lines_marks [of line lines mapping status] by blast
next
  assume h: "structured_pass w (fst (run_command m w tr (compose m ''ps --format json'') True True)) = [] \<and>
    process w (tr @ [Run (compose m ''ps --format json'')]) (compose m ''ps'') = Exited 0 out err \<and>
    line \<in> set (drop 1 (split_on CHR 0x0A (strip out))) \<and>
    2 \<le> length (split_ws line) \<and> has_status_word line"
  have ne: "out \<noteq> []"
  proof
    assume "out = []"
    then have "drop 1 (split_on CHR 0x0A (strip out)) = []" by (simp add: strip_def)
    then show False using h by simp
  qed
  have "fst (get_service_status m w tr) =
          parse_text_lines (service_mapping m) [] (drop 1 (split_on CHR 0x0A (strip out)))"
    using h ne get_service_status_fallback [of w m tr]
      fallback_pass_Exited [of m m w "tr @ [Run (compose m ''ps --format json'')]" "compose m ''ps''" "[]"]
    by simp
  then show "map_of (fst (get_service_status m w tr)) (alias_key (service_mapping m) (hd (split_ws line))) =
        Some ''Up''"
    using h parse_text_lines_marks [of line "drop 1 (split_on CHR 0x0A (strip out))" "service_mapping m" "[]"]
    by simp
qed

theorem fallback_marks_service_up_witness:
  "2 \<le> length (split_ws ''servers-page-server-1   node:20      Up 5 minutes'') \<and>
   has_status_word ''servers-page-server-1   node:20      Up 5 minutes'' \<and>
   parse_text_line (service_mapping (init ''/app'' False)) []
     ''servers-page-server-1   node:20      Up 5 minutes'' = [(''page-server'', ''Up'')] \<and>
   structured_pass (example_world (text_only_tool ps_table) (\<lambda>s. JSONDecodeError) True)
     (fst (run_command (init ''/app'' False)
        (example_world (text_only_tool ps_table) (\<lambda>s. JSONDecodeError) True) []
        (compose (init ''/app'' False) ''ps --format json'') True True)) = [] \<and>
   ''servers-page-server-1   node:20      Up 5 minutes''
     \<in> set (drop 1 (split_on CHR 0x0A (strip ps_table))) \<and>
   map_of (fst (get_service_status (init ''/app'' False)
        (example_world (text_only_tool ps_table) (\<lambda>s. JSONDecodeError) True) []))
     ''page-server'' = Some ''Up'' \<and>
   2 \<le> length (split_ws ''adminer-1               adminer      Up 2 hours'') \<and>
   has_status_word ''adminer-1               adminer      Up 2 hours'' \<and>
   map_of (parse_text_lines (service_mapping (init ''/app'' False)) []
             (drop 1 (split_on CHR 0x0A (strip ps_table)))) ''adminer-1'' = Some ''Up''"
proof -
  let ?w = "example_world (text_only_tool ps_table) (\<lambda>s. JSONDecodeError) True"
  let ?m = "init ''/app'' False"
  let ?l = "''servers-page-server-1   node:20      Up 5 minutes''"
  let ?a = "''adminer-1               adminer      Up 2 hours''"
  let ?lines = "drop 1 (split_on CHR 0x0A (strip ps_table))"
  have l1: "2 \<le> length (split_ws ?l)" by (simp add: split_ws_def is_space_def)
  have l2: "has_status_word ?l" by simp
  have a1: "2 \<le> length (split_ws ?a)" by (simp add: split_ws_def is_space_def)
  have a2: "has_status_word ?a" by simp
  have kl: "alias_key (service_mapping ?m) (hd (split_ws ?l)) = ''page-server''"
    by (simp add: split_ws_def is_space_def init_def)
  have ka: "alias_key (service_mapping ?m) (hd (split_ws ?a)) = ''adminer-1''"
    by (simp add: split_ws_def is_space_def init_def)
  have b: "structured_pass ?w (fst (run_command ?m ?w [] (compose ?m ''ps --format json'') True True)) = []"
    by (simp add: eval_defs or_empty_def)
  have c: "process ?w ([] @ [Run (compose ?m ''ps --format json'')]) (compose ?m ''ps'') =
             Exited 0 ps_table []"
    by (simp add: example_world_def text_only_tool_def compose_def init_def joinpath_def)
  have d: "?lines = [?l, ''servers-db-server-1     postgres:16  Exited (1) 2 minutes ago'', ?a]"
    by (simp add: ps_table_def strip_def is_space_def)
  have dl: "?l \<in> set ?lines" unfolding d by simp
  have da: "?a \<in> set ?lines" unfolding d by simp
  note tl = fallback_marks_service_up [of ?l "service_mapping ?m" "[]" ?lines ?w ?m "[]" ps_table "[]"]
  note ta = fallback_marks_service_up [of ?a "service_mapping ?m" "[]" ?lines ?w ?m "[]" ps_table "[]"]
  have r1: "parse_text_line (service_mapping ?m) [] ?l = [(''page-server'', ''Up'')]"
    using tl [THEN conjunct1] l1 l2 unfolding kl by simp
  have r2: "map_of (fst (get_service_status ?m ?w [])) ''page-server'' = Some ''Up''"
    using tl [THEN conjunct2, THEN conjunct2] b c dl l1 l2 unfolding kl by blast
  have r3: "map_of (parse_text_lines (service_mapping ?m) [] ?lines) ''adminer-1'' = Some ''Up''"
    using ta [THEN conjunct2, THEN conjunct1] da a1 a2 unfolding ka by blast
  show ?thesis
    using l1 l2 r1 b dl r2 a1 a2 r3 by blast
qed

text \<open>
  The claim as written speaks of every non-header line. A line of one token is skipped by the
  guard \<^verbatim>\<open>len(parts) >= 2\<close> even when it contains one of the words.
\<close>

theorem fallback_single_token_counterexample:
  "drop 1 (split_on CHR 0x0A (strip ''STATUS\<newline>Up'')) = [''Up''] \<and>
   strip ''Up'' \<noteq> [] \<and> split_ws ''Up'' = [''Up''] \<and> has_status_word ''Up'' \<and>
   fst (get_service_status (init ''/app'' False)
          (example_world (text_only_tool ''STATUS\<newline>Up'') (\<lambda>s. JSONDecodeError) True) []) = []"
  by (simp add: eval_defs)

subsection \<open>\<^verbatim>\<open>show_service_status\<close>\<close>

lemmas json_eval_defs = example_loads_def json_tool_def json_line_def quoted_def all_running_output_def
  dict_get_def is_running_state_def lower_def lower_char_def status_line_def show_service_status_def
  printed_def probes_def invocations_def test_services_def ports_def

lemma printed_append [simp]: "printed (a @ b) = printed a @ printed b"
  by (simp add: printed_def)

lemma probes_append [simp]: "probes (a @ b) = probes a @ probes b"
  by (simp add: probes_def)

lemma invocations_append [simp]: "invocations (a @ b) = invocations a @ invocations b"
  by (simp add: invocations_def)

lemma printed_simps [simp]:
  "printed [] = []" "printed (Run c # tr) = printed tr" "printed (Connect p # tr) = printed tr"
  "printed (Read # tr) = printed tr" "printed (Print l # tr) = l # printed tr"
  by (simp_all add: printed_def)

lemma probes_simps [simp]:
  "probes [] = []" "probes (Run c # tr) = probes tr" "probes (Connect p # tr) = p # probes tr"
  "probes (Read # tr) = probes tr" "probes (Print l # tr) = probes tr"
  by (simp_all add: probes_def)

lemma invocations_simps [simp]:
  "invocations [] = []" "invocations (Run c # tr) = c # invocations tr"
  "invocations (Connect p # tr) = invocations tr"
  "invocations (Read # tr) = invocations tr" "invocations (Print l # tr) = invocations tr"
  by (simp_all add: invocations_def)

lemma get_service_status_effects:
  "printed (snd (get_service_status m w tr)) = printed tr"
  "probes (snd (get_service_status m w tr)) = probes tr"
  by (simp_all add: get_service_status_eq Let_def)

lemma printed_map_Print: "printed (map (\<lambda>x. Print (f x)) xs) = map f xs"
  by (induction xs) simp_all

text \<open>
  Claim C3, as the code has it. Whatever the status holds, \<^verbatim>\<open>show_service_status\<close> prints one
  line for each entry of the registry, in the order of the registry. The line is the running
  one exactly when the key is in the status with a state whose lower-case form contains
  \<^verbatim>\<open>up\<close>, \<^verbatim>\<open>running\<close> or \<^verbatim>\<open>started\<close>. A key in the status with any other state gets the
  not-running line, which shows the raw state; a key that is not in the status gets the
  stopped line. These are two different lines.
\<close>

theorem show_service_status_renders_registry:
  "printed (show_service_status m w tr) =
     printed tr @ map (status_line (fst (get_service_status m w tr))) (services m) \<and>
   (status_line status (service, service_name) = Status_running service_name state \<longleftrightarrow>
      map_of status service = Some state \<and> is_running_state state) \<and>
   (status_line status (service, service_name) = Status_not_running service_name state \<longleftrightarrow>
      map_of status service = Some state \<and> \<not> is_running_state state) \<and>
   (status_line status (service, service_name) = Status_stopped service_name \<longleftrightarrow>
      map_of status service = None) \<and>
   (is_running_state state \<longleftrightarrow>
      str_contains ''up'' (lower state) \<or> str_contains ''running'' (lower state) \<or>
      str_contains ''started'' (lower state))"
proof -
  have "printed (show_service_status m w tr) =
     printed tr @ map (status_line (fst (get_service_status m w tr))) (services m)"
    by (simp add: show_service_status_def case_prod_beta get_service_status_effects printed_map_Print)
  moreover have "is_running_state state \<longleftrightarrow>
      str_contains ''up'' (lower state) \<or> str_contains ''running'' (lower state) \<or>
      str_contains ''started'' (lower state)"
    by (simp add: is_running_state_def)
  ultimately show ?thesis
    by (auto simp: status_line_def split: option.splits)
qed

theorem show_service_status_renders_registry_witness:
  "printed (show_service_status (init ''/app'' False)
     (example_world (json_tool (json_line ''db-server'' ''exited'' @ ''\<newline>'' @
                                json_line ''nginx'' ''running'')) example_loads True) []) =
   [Status_stopped ''Page Server (Next.js)'', Status_stopped ''API Server (FastAPI)'',
    Status_not_running ''Database Server (PostgreSQL)'' ''exited'',
    Status_running ''Nginx (Reverse Proxy)'' ''running'', Status_stopped ''Redis (Cache)'']"
proof -
  let ?w = "example_world (json_tool (json_line ''db-server'' ''exited'' @ ''\<newline>'' @
                                json_line ''nginx'' ''running'')) example_loads True"
  have s: "fst (get_service_status (init ''/app'' False) ?w []) =
             [(''db-server'', ''exited''), (''nginx'', ''running'')]"
    by (simp add: eval_defs json_eval_defs)
  have r: "is_running_state ''running''" and e: "\<not> is_running_state ''exited''"
    by (simp_all add: is_running_state_def lower_def lower_char_def)
  note t = show_service_status_renders_registry [where m = "init ''/app'' False" and w = ?w and tr = "[]"
      and status = "[(''db-server'', ''exited''), (''nginx'', ''running'')]"]
  have n: "status_line [(''db-server'', ''exited''), (''nginx'', ''running'')]
             (''nginx'', ''Nginx (Reverse Proxy)'') = Status_running ''Nginx (Reverse Proxy)'' ''running''"
    using t [where service = "''nginx''" and service_name = "''Nginx (Reverse Proxy)''"
        and state = "''running''", THEN conjunct2, THEN conjunct1] r by simp
  have d: "status_line [(''db-server'', ''exited''), (''nginx'', ''running'')]
             (''db-server'', ''Database Server (PostgreSQL)'') =
           Status_not_running ''Database Server (PostgreSQL)'' ''exited''"
    using t [where service = "''db-server''" and service_name = "''Database Server (PostgreSQL)''"
        and state = "''exited''", THEN conjunct2, THEN conjunct2, THEN conjunct1] e by simp
  have p: "status_line [(''db-server'', ''exited''), (''nginx'', ''running'')]
             (''page-server'', ''Page Server (Next.js)'') = Status_stopped ''Page Server (Next.js)''"
    using t [where service = "''page-server''" and service_name = "''Page Server (Next.js)''",
        THEN conjunct2, THEN conjunct2, THEN conjunct2, THEN conjunct1] by simp
  have a: "status_line [(''db-server'', ''exited''), (''nginx'', ''running'')]
             (''api-server'', ''API Server (FastAPI)'') = Status_stopped ''API Server (FastAPI)''"
    using t [where service = "''api-server''" and service_name = "''API Server (FastAPI)''",
        THEN conjunct2, THEN conjunct2, THEN conjunct2, THEN conjunct1] by simp
  have c: "status_line [(''db-server'', ''exited''), (''nginx'', ''running'')]
             (''redis'', ''Redis (Cache)'') = Status_stopped ''Redis (Cache)''"
    using t [where service = "''redis''" and service_name = "''Redis (Cache)''",
        THEN conjunct2, THEN conjunct2, THEN conjunct2, THEN conjunct1] by simp
  show ?thesis
    using t [THEN conjunct1] unfolding s
    by (simp add: init_def n d p a c)
qed

text \<open>
  The claim as written renders an absent service and one reported as exited in the same way.
  The line of the database server differs between a status that reports it as exited and a
  status that does not mention it.
\<close>

theorem absent_and_exited_rendered_differently_counterexample:
  "printed (show_service_status (init ''/app'' False)
     (example_world (json_tool (json_line ''db-server'' ''exited'')) example_loads True) []) =
   [Status_stopped ''Page Server (Next.js)'', Status_stopped ''API Server (FastAPI)'',
    Status_not_running ''Database Server (PostgreSQL)'' ''exited'',
    Status_stopped ''Nginx (Reverse Proxy)'', Status_stopped ''Redis (Cache)''] \<and>
   printed (show_service_status (init ''/app'' False)
     (example_world (json_tool []) example_loads True) []) =
   [Status_stopped ''Page Server (Next.js)'', Status_stopped ''API Server (FastAPI)'',
    Status_stopped ''Database Server (PostgreSQL)'',
    Status_stopped ''Nginx (Reverse Proxy)'', Status_stopped ''Redis (Cache)'']"
  by (simp add: eval_defs json_eval_defs)

subsection \<open>\<^verbatim>\<open>test_services\<close>\<close>

lemma probes_probe_ports: "probes (probe_ports w tr ps) = probes tr @ map fst ps"
  by (induction ps arbitrary: tr) auto

lemma invocations_probe_ports: "invocations (probe_ports w tr ps) = invocations tr"
  by (induction ps arbitrary: tr) auto

lemma run_command_connect_ex:
  "run_command m (w\<lparr>connect_ex := c\<rparr>) tr command ch cap = run_command m w tr command ch cap"
  by (simp add: run_command_def)

lemma structured_pass_connect_ex:
  "structured_pass (w\<lparr>connect_ex := c\<rparr>) result = structured_pass w result"
  by (cases result) (simp add: structured_pass_def)

lemma get_service_status_connect_ex:
  "get_service_status m (w\<lparr>connect_ex := c\<rparr>) tr = get_service_status m w tr"
  by (simp add: get_service_status_eq run_command_connect_ex structured_pass_connect_ex Let_def
      cong: if_cong)

text \<open>
  Claim C5. \<^verbatim>\<open>test_services\<close> queries the status. When some registry key is not reported
  up it returns false with the trace of the query: no port is probed. When all are reported
  up it probes the five ports, in the order of the table, and returns true. The result does
  not depend on what the connects give: replacing \<open>connect_ex\<close> by any other function leaves it
  unchanged.
\<close>

theorem test_services_ports_are_diagnostic:
  "(\<not> list_all (reported_up (fst (get_service_status m w tr))) (map fst (services m)) \<longrightarrow>
      test_services m w tr = (False, snd (get_service_status m w tr)) \<and>
      probes (snd (test_services m w tr)) = probes tr) \<and>
   (list_all (reported_up (fst (get_service_status m w tr))) (map fst (services m)) \<longrightarrow>
      fst (test_services m w tr) = True \<and>
      probes (snd (test_services m w tr)) = probes tr @ [80, 5173, 8002, 15432, 16379]) \<and>
   fst (test_services m (w\<lparr>connect_ex := c\<rparr>) tr) = fst (test_services m w tr)"
proof -
  have "fst (test_services m (w\<lparr>connect_ex := c\<rparr>) tr) = fst (test_services m w tr)"
    by (simp add: test_services_def get_service_status_connect_ex case_prod_beta Let_def)
  then show ?thesis
    by (simp add: test_services_def case_prod_beta Let_def get_service_status_effects
        probes_probe_ports ports_def)
qed

theorem test_services_ports_are_diagnostic_witness:
  "list_all (reported_up (fst (get_service_status (init ''/app'' False)
       (example_world (json_tool all_running_output) example_loads True) [])))
     (map fst (services (init ''/app'' False))) \<and>
   fst (test_services (init ''/app'' False)
       (example_world (json_tool all_running_output) example_loads True) []) = True \<and>
   probes (snd (test_services (init ''/app'' False)
       (example_world (json_tool all_running_output) example_loads True) [])) =
     [80, 5173, 8002, 15432, 16379] \<and>
   connect_ex (example_world (json_tool all_running_output) example_loads True)
     [Run ''docker compose -f /app/servers/docker-compose.dev.yml ps --format json'', Connect 80,
      Print (Port_connected ''nginx'' 80), Connect 5173, Print (Port_error ''page-server'' 5173)]
     8002 = Some 111 \<and>
   \<not> list_all (reported_up (fst (get_service_status (init ''/app'' False)
       (example_world (json_tool (json_line ''db-server'' ''exited'' @ ''\<newline>'' @
                                  json_line ''nginx'' ''running'')) example_loads True) [])))
     (map fst (services (init ''/app'' False))) \<and>
   test_services (init ''/app'' False)
       (example_world (json_tool (json_line ''db-server'' ''exited'' @ ''\<newline>'' @
                                  json_line ''nginx'' ''running'')) example_loads True) [] =
     (False, [Run ''docker compose -f /app/servers/docker-compose.dev.yml ps --format json''])"
proof -
  let ?m = "init ''/app'' False"
  let ?up = "example_world (json_tool all_running_output) example_loads True"
  let ?down = "example_world (json_tool (json_line ''db-server'' ''exited'' @ ''\<newline>'' @
                                  json_line ''nginx'' ''running'')) example_loads True"
  have u: "get_service_status ?m ?up [] =
     ([(''page-server'', ''running''), (''api-server'', ''running''), (''db-server'', ''running''),
       (''nginx'', ''running''), (''redis'', ''running'')],
      [Run ''docker compose -f /app/servers/docker-compose.dev.yml ps --format json''])"
    by (simp add: eval_defs json_eval_defs)
  have d: "get_service_status ?m ?down [] =
     ([(''db-server'', ''exited''), (''nginx'', ''running'')],
      [Run ''docker compose -f /app/servers/docker-compose.dev.yml ps --format json''])"
    by (simp add: eval_defs json_eval_defs)
  have r: "is_running_state ''running''" and e: "\<not> is_running_state ''exited''"
    by (simp_all add: is_running_state_def lower_def lower_char_def)
  have up: "list_all (reported_up (fst (get_service_status ?m ?up []))) (map fst (services ?m))"
    unfolding u by (simp add: init_def r)
  have down: "\<not> list_all (reported_up (fst (get_service_status ?m ?down []))) (map fst (services ?m))"
    unfolding d by (simp add: init_def)
  have c: "connect_ex ?up
     [Run ''docker compose -f /app/servers/docker-compose.dev.yml ps --format json'', Connect 80,
      Print (Port_connected ''nginx'' 80), Connect 5173, Print (Port_error ''page-server'' 5173)]
     8002 = Some 111"
    by (simp add: example_world_def)
  have t1: "fst (test_services ?m ?up []) = True \<and>
      probes (snd (test_services ?m ?up [])) = [80, 5173, 8002, 15432, 16379]"
    using test_services_ports_are_diagnostic [of ?m ?up "[]", THEN conjunct2, THEN conjunct1] up
    by simp
  have t2: "test_services ?m ?down [] =
     (False, [Run ''docker compose -f /app/servers/docker-compose.dev.yml ps --format json''])"
    using test_services_ports_are_diagnostic [of ?m ?down "[]", THEN conjunct1] down
    unfolding d by simp
  show ?thesis using up t1 c down t2 by blast
qed

subsection \<open>\<^verbatim>\<open>run_all_services\<close> and \<^verbatim>\<open>run_single_service\<close>\<close>

lemma test_basic_environment_eq:
  "test_basic_environment m w tr =
     (if \<not> list_all (path_exists w) (required_files m) then (False, tr)
      else ((\<exists>out err. process w tr (compose m ''config'') = Exited 0 out err),
            tr @ [Run (compose m ''config'')]))"
proof -
  obtain rc out err where
    "run_command m w tr (compose m ''config'') False False =
       ((rc, out, err), tr @ [Run (compose m ''config'')])"
    "(rc = 0) = (\<exists>out' err'. process w tr (compose m ''config'') = Exited 0 out' err')"
    by (rule run_command_obtain)
  then show ?thesis by (simp add: test_basic_environment_def Let_def)
qed

lemma invocations_test_basic_environment:
  "\<not> fst (test_basic_environment m w tr) \<Longrightarrow>
   invocations (snd (test_basic_environment m w tr)) =
     invocations tr @ (if list_all (path_exists w) (required_files m) then [compose m ''config''] else [])"
  by (simp add: test_basic_environment_eq)

lemma run_all_services_eq:
  "run_all_services m w tr =
     (let env = test_basic_environment m w tr;
          built = build_service m w (snd env) [];
          started = run_service m w (snd built) [];
          tested = test_services m w (snd started)
      in if \<not> fst env then (False, snd env)
         else if \<not> fst built then (False, snd built)
         else if \<not> fst started then (False, snd started)
         else if \<not> fst tested then (True, snd tested @ [Print Post_check_warning])
         else (True, snd tested))"
  by (simp add: run_all_services_def Let_def case_prod_beta)

lemma run_single_service_eq:
  "service \<in> set (map fst (services m)) \<Longrightarrow>
   run_single_service m w tr service =
     (let env = test_basic_environment m w tr;
          built = build_service m w (snd env) service;
          started = run_service m w (snd built) service;
          tested = test_services m w (snd started)
      in if \<not> fst env then (False, snd env)
         else if \<not> fst built then (False, snd built)
         else if \<not> fst started then (False, snd started)
         else if \<not> fst tested then (True, snd tested @ [Print Post_check_warning])
         else (True, snd tested))"
  by (simp add: run_single_service_def Let_def case_prod_beta)

lemma run_single_service_unknown:
  "service \<notin> set (map fst (services m)) \<Longrightarrow> run_single_service m w tr service = (False, tr)"
  by (simp add: run_single_service_def)

text \<open>
  Claim C4. Both workflows run the environment check, then the build, then the start. When the
  environment check returns false the workflow returns false with the trace of the check: no
  command is spawned but, when all required files exist, the validation of the manifest. When
  the build returns false the workflow returns false and the build is the last command; when
  the start returns false it returns false and the start is the last command. When the three
  succeed the workflow returns true, whatever \<^verbatim>\<open>test_services\<close> returns afterwards. For
  \<^verbatim>\<open>run_single_service\<close> this is for a key of the registry; on any other key it returns false
  at once, and nothing is checked or spawned.
\<close>

theorem bring_up_sequence:
  "(let env = test_basic_environment m w tr;
        built = build_service m w (snd env) [];
        started = run_service m w (snd built) []
    in (\<not> fst env \<longrightarrow>
          run_all_services m w tr = (False, snd env) \<and>
          invocations (snd (run_all_services m w tr)) =
            invocations tr @
              (if list_all (path_exists w) (required_files m) then [compose m ''config''] else [])) \<and>
       (fst env \<and> \<not> fst built \<longrightarrow>
          run_all_services m w tr = (False, snd env @ [Run (compose m ''build '')])) \<and>
       (fst env \<and> fst built \<and> \<not> fst started \<longrightarrow>
          run_all_services m w tr =
            (False, snd env @ [Run (compose m ''build ''), Run (compose m ''up -d '')])) \<and>
       (fst env \<and> fst built \<and> fst started \<longrightarrow> fst (run_all_services m w tr) = True)) \<and>
   (let env = test_basic_environment m w tr;
        built = build_service m w (snd env) service;
        started = run_service m w (snd built) service
    in service \<in> set (map fst (services m)) \<longrightarrow>
       (\<not> fst env \<longrightarrow>
          run_single_service m w tr service = (False, snd env) \<and>
          invocations (snd (run_single_service m w tr service)) =
            invocations tr @
              (if list_all (path_exists w) (required_files m) then [compose m ''config''] else [])) \<and>
       (fst env \<and> \<not> fst built \<longrightarrow>
          run_single_service m w tr service =
            (False, snd env @ [Run (compose m (''build '' @ service))])) \<and>
       (fst env \<and> fst built \<and> \<not> fst started \<longrightarrow>
          run_single_service m w tr service =
            (False, snd env @ [Run (compose m (''build '' @ service)),
                               Run (compose m (''up -d '' @ service))])) \<and>
       (fst env \<and> fst built \<and> fst started \<longrightarrow>
          fst (run_single_service m w tr service) = True)) \<and>
   (service \<notin> set (map fst (services m)) \<longrightarrow> run_single_service m w tr service = (False, tr))"
  unfolding Let_def
  by (intro conjI impI)
     (simp_all add: run_all_services_eq run_single_service_eq Let_def
        invocations_test_basic_environment build_service_eq run_service_eq
        run_single_service_unknown)

theorem bring_up_sequence_witness:
  "run_all_services (init ''/app'' False)
     (example_world (\<lambda>c. Exited 0 [] []) (\<lambda>s. JSONDecodeError) False) [] = (False, []) \<and>
   run_single_service (init ''/app'' False)
     (example_world (tool_failing ''config'') (\<lambda>s. JSONDecodeError) True) [] ''nginx'' =
       (False, [Run ''docker compose -f /app/servers/docker-compose.dev.yml config'']) \<and>
   run_single_service (init ''/app'' False)
     (example_world (tool_failing ''build'') (\<lambda>s. JSONDecodeError) True) [] ''nginx'' =
       (False, [Run ''docker compose -f /app/servers/docker-compose.dev.yml config'',
                Run ''docker compose -f /app/servers/docker-compose.dev.yml build nginx'']) \<and>
   run_all_services (init ''/app'' False)
     (example_world (tool_failing ''up -d'') (\<lambda>s. JSONDecodeError) True) [] =
       (False, [Run ''docker compose -f /app/servers/docker-compose.dev.yml config'',
                Run ''docker compose -f /app/servers/docker-compose.dev.yml build '',
                Run ''docker compose -f /app/servers/docker-compose.dev.yml up -d '']) \<and>
   fst (test_services (init ''/app'' False)
     (example_world (\<lambda>c. Exited 0 [] []) (\<lambda>s. JSONDecodeError) True)
     [Run ''docker compose -f /app/servers/docker-compose.dev.yml config'',
      Run ''docker compose -f /app/servers/docker-compose.dev.yml build '',
      Run ''docker compose -f /app/servers/docker-compose.dev.yml up -d '']) = False \<and>
   fst (run_all_services (init ''/app'' False)
     (example_world (\<lambda>c. Exited 0 [] []) (\<lambda>s. JSONDecodeError) True) []) = True \<and>
   ''test-service'' \<notin> set (map fst (services (init ''/app'' False))) \<and>
   run_single_service (init ''/app'' False)
     (example_world (\<lambda>c. Exited 0 [] []) (\<lambda>s. JSONDecodeError) True) [] ''test-service'' =
       (False, [])"
proof -
  let ?m = "init ''/app'' False"
  let ?nofiles = "example_world (\<lambda>c. Exited 0 [] []) (\<lambda>s. JSONDecodeError) False"
  let ?noconfig = "example_world (tool_failing ''config'') (\<lambda>s. JSONDecodeError) True"
  let ?nobuild = "example_world (tool_failing ''build'') (\<lambda>s. JSONDecodeError) True"
  let ?noup = "example_world (tool_failing ''up -d'') (\<lambda>s. JSONDecodeError) True"
  let ?ok = "example_world (\<lambda>c. Exited 0 [] []) (\<lambda>s. JSONDecodeError) True"
  note defs = test_basic_environment_eq build_service_eq run_service_eq example_world_def
    tool_failing_def required_files_def init_def compose_def joinpath_def
  have nginx: "''nginx'' \<in> set (map fst (services ?m))" by (simp add: init_def)
  have a: "run_all_services ?m ?nofiles [] = (False, [])"
    using bring_up_sequence [of ?m ?nofiles "[]" "''nginx''", THEN conjunct1]
    by (simp add: Let_def defs)
  have b: "run_single_service ?m ?noconfig [] ''nginx'' =
       (False, [Run ''docker compose -f /app/servers/docker-compose.dev.yml config''])"
    using bring_up_sequence [of ?m ?noconfig "[]" "''nginx''", THEN conjunct2] nginx
    by (simp add: Let_def defs)
  have c: "run_single_service ?m ?nobuild [] ''nginx'' =
       (False, [Run ''docker compose -f /app/servers/docker-compose.dev.yml config'',
                Run ''docker compose -f /app/servers/docker-compose.dev.yml build nginx''])"
    using bring_up_sequence [of ?m ?nobuild "[]" "''nginx''", THEN conjunct2] nginx
    by (simp add: Let_def defs)
  have d: "run_all_services ?m ?noup [] =
       (False, [Run ''docker compose -f /app/servers/docker-compose.dev.yml config'',
                Run ''docker compose -f /app/servers/docker-compose.dev.yml build '',
                Run ''docker compose -f /app/servers/docker-compose.dev.yml up -d ''])"
    using bring_up_sequence [of ?m ?noup "[]" "''nginx''", THEN conjunct1]
    by (simp add: Let_def defs)
  have e: "fst (test_services ?m ?ok
     [Run ''docker compose -f /app/servers/docker-compose.dev.yml config'',
      Run ''docker compose -f /app/servers/docker-compose.dev.yml build '',
      Run ''docker compose -f /app/servers/docker-compose.dev.yml up -d '']) = False"
    by (simp add: eval_defs json_eval_defs)
  have f: "fst (run_all_services ?m ?ok []) = True"
    using bring_up_sequence [of ?m ?ok "[]" "''nginx''", THEN conjunct1]
    by (simp add: Let_def defs)
  have t: "''test-service'' \<notin> set (map fst (services ?m))" by (simp add: init_def)
  have g: "run_single_service ?m ?ok [] ''test-service'' = (False, [])"
    using bring_up_sequence [of ?m ?ok "[]" "''test-service''", THEN conjunct2, THEN conjunct2] t
    by simp
  show ?thesis using a b c d e f t g by blast
qed

subsection \<open>\<^verbatim>\<open>main\<close>\<close>

lemma show_menu_leaves:
  "fst (menu_round m w tr) \<Longrightarrow> show_menu m w tr = Some (snd (menu_round m w tr))"
  by (subst show_menu.simps) (simp add: Let_def)

lemma menu_round_zero:
  "user_input w tr = Entered text \<Longrightarrow> strip text = ''0'' \<Longrightarrow> menu_round m w tr = (True, tr @ [Read])"
  by (simp add: menu_round_def Let_def)

lemma menu_round_interrupt:
  "user_input w tr = KeyboardInterrupt \<Longrightarrow> menu_round m w tr = (True, tr @ [Read])"
  by (simp add: menu_round_def)

lemma check_docker_eq:
  "check_docker m w tr =
     (if \<exists>out err. process w tr ''docker --version'' = Exited 0 out err
      then ((\<exists>out err. process w (tr @ [Run ''docker --version'']) ''docker info'' = Exited 0 out err),
            tr @ [Run ''docker --version'', Run ''docker info''])
      else (False, tr @ [Run ''docker --version'']))"
proof -
  obtain rc out err where a:
    "run_command m w tr ''docker --version'' False False = ((rc, out, err), tr @ [Run ''docker --version''])"
    "(rc = 0) = (\<exists>out' err'. process w tr ''docker --version'' = Exited 0 out' err')"
    by (rule run_command_obtain)
  obtain rc2 out2 err2 where b:
    "run_command m w (tr @ [Run ''docker --version'']) ''docker info'' False False =
       ((rc2, out2, err2), (tr @ [Run ''docker --version'']) @ [Run ''docker info''])"
    "(rc2 = 0) = (\<exists>out' err'. process w (tr @ [Run ''docker --version'']) ''docker info'' = Exited 0 out' err')"
    by (rule run_command_obtain)
  show ?thesis using a b by (simp add: check_docker_def Let_def)
qed

text \<open>
  At the end of the input the menu is never left: every \<^verbatim>\<open>input()\<close> raises \<^verbatim>\<open>EOFError\<close>, the
  handler of the loop prints it, and the loop goes round.
\<close>

lemma menu_round_eof:
  "user_input w tr = EOFError \<Longrightarrow> menu_round m w tr = (False, tr @ [Read])"
  by (simp add: menu_round_def)

lemma show_menu_end_of_input:
  assumes "\<forall>tr. user_input w tr = EOFError"
  shows "show_menu m w tr = None"
proof (rule ccontr)
  assume "show_menu m w tr \<noteq> None"
  then obtain y where y: "show_menu m w tr = Some y" by auto
  have "w \<noteq> w"
  proof (rule show_menu.raw_induct [where P = "\<lambda>m' w' tr' y'. w' \<noteq> w", OF _ y])
    fix f :: "manager \<Rightarrow> world \<Rightarrow> event list \<Rightarrow> event list option" and m' w' tr' y'
    assume ih: "\<And>m'' w'' tr'' y''. f m'' w'' tr'' = Some y'' \<Longrightarrow> w'' \<noteq> w"
      and step: "(let r = menu_round m' w' tr'
                  in if fst r then Some (snd r) else f m' w' (snd r)) = Some y'"
    show "w' \<noteq> w"
    proof
      assume eq: "w' = w"
      then have "menu_round m' w' tr' = (False, tr' @ [Read])"
        using assms menu_round_eof by simp
      then have "f m' w' (tr' @ [Read]) = Some y'" using step by (simp add: Let_def)
      then show False using ih eq by blast
    qed
  qed
  then show False by simp
qed

text \<open>
  Claim C8, as the code has it. \<^verbatim>\<open>--help\<close> exits with status 0 and a rejected command line with
  status 2, both before any check. For a command line the parser accepts: when a pre-flight
  check fails the process exits with status 1 after the probes of the container runtime alone;
  when both pass and a flag is set the process exits with status 0, whatever the selected
  workflow did; when both pass and no flag is set the process exits with status 0 once the
  menu is left, and never if it is not. The menu is left at once when the operator types
  \<^verbatim>\<open>0\<close> or interrupts.
\<close>

theorem main_exit_status:
  "main root windows w Help_exit tr = Some (0, tr) \<and>
   main root windows w Usage_error tr = Some (2, tr) \<and>
   (\<not> preflight_ok (init root windows) w tr \<longrightarrow>
      main root windows w (Namespace a) tr = Some (1, snd (check_docker (init root windows) w tr))) \<and>
   (preflight_ok (init root windows) w tr \<and> any_flag a \<longrightarrow>
      (\<exists>tr'. main root windows w (Namespace a) tr = Some (0, tr'))) \<and>
   (preflight_ok (init root windows) w tr \<and> \<not> any_flag a \<longrightarrow>
      main root windows w (Namespace a) tr =
        (case show_menu (init root windows) w (snd (check_docker (init root windows) w tr)) of
           None \<Rightarrow> None
         | Some tr' \<Rightarrow> Some (0, tr'))) \<and>
   (user_input w tr = KeyboardInterrupt \<or> (\<exists>text. user_input w tr = Entered text \<and> strip text = ''0'') \<longrightarrow>
      show_menu m w tr = Some (tr @ [Read]))"
proof -
  have menu: "user_input w tr = KeyboardInterrupt \<or> (\<exists>text. user_input w tr = Entered text \<and> strip text = ''0'') \<longrightarrow>
      show_menu m w tr = Some (tr @ [Read])"
    using show_menu_leaves [of m w tr] menu_round_zero [of w tr _ m] menu_round_interrupt [of w tr m]
    by auto
  have rest: "main root windows w Help_exit tr = Some (0, tr) \<and>
   main root windows w Usage_error tr = Some (2, tr) \<and>
   (\<not> preflight_ok (init root windows) w tr \<longrightarrow>
      main root windows w (Namespace a) tr = Some (1, snd (check_docker (init root windows) w tr))) \<and>
   (preflight_ok (init root windows) w tr \<and> any_flag a \<longrightarrow>
      (\<exists>tr'. main root windows w (Namespace a) tr = Some (0, tr'))) \<and>
   (preflight_ok (init root windows) w tr \<and> \<not> any_flag a \<longrightarrow>
      main root windows w (Namespace a) tr =
        (case show_menu (init root windows) w (snd (check_docker (init root windows) w tr)) of
           None \<Rightarrow> None
         | Some tr' \<Rightarrow> Some (0, tr')))"
    by (simp add: main_def Let_def case_prod_beta)
  show ?thesis using menu rest by blast
qed

theorem main_exit_status_witness:
  "main ''/app'' False (example_world (tool_failing ''docker info'') example_loads True)
     (Namespace (no_flags\<lparr>arg_status := True\<rparr>)) [] =
     Some (1, [Run ''docker --version'', Run ''docker info'']) \<and>
   main ''/app'' False (example_world (\<lambda>c. Exited 0 [] []) example_loads False)
     (Namespace (no_flags\<lparr>arg_all := True\<rparr>)) [] =
     Some (1, [Run ''docker --version'', Run ''docker info'']) \<and>
   preflight_ok (init ''/app'' False) (example_world (tool_failing ''build'') example_loads True) [] \<and>
   fst (run_all_services (init ''/app'' False) (example_world (tool_failing ''build'') example_loads True)
          [Run ''docker --version'', Run ''docker info'']) = False \<and>
   (\<exists>tr'. main ''/app'' False (example_world (tool_failing ''build'') example_loads True)
     (Namespace (no_flags\<lparr>arg_all := True\<rparr>)) [] = Some (0, tr')) \<and>
   main ''/app'' False (example_world (\<lambda>c. Exited 0 [] []) example_loads True)
     (Namespace no_flags) [] =
     Some (0, [Run ''docker --version'', Run ''docker info'', Read])"
proof -
  let ?m = "init ''/app'' False"
  let ?nodocker = "example_world (tool_failing ''docker info'') example_loads True"
  let ?nofile = "example_world (\<lambda>c. Exited 0 [] []) example_loads False"
  let ?nobuild = "example_world (tool_failing ''build'') example_loads True"
  let ?ok = "example_world (\<lambda>c. Exited 0 [] []) example_loads True"
  note defs = check_docker_eq check_compose_file_def example_world_def tool_failing_def no_flags_def
  have a: "main ''/app'' False ?nodocker (Namespace (no_flags\<lparr>arg_status := True\<rparr>)) [] =
     Some (1, [Run ''docker --version'', Run ''docker info''])"
    using main_exit_status [of "''/app''" False ?nodocker "[]" "no_flags\<lparr>arg_status := True\<rparr>"]
    by (simp add: defs)
  have b: "main ''/app'' False ?nofile (Namespace (no_flags\<lparr>arg_all := True\<rparr>)) [] =
     Some (1, [Run ''docker --version'', Run ''docker info''])"
    using main_exit_status [of "''/app''" False ?nofile "[]" "no_flags\<lparr>arg_all := True\<rparr>"]
    by (simp add: defs)
  have p: "preflight_ok ?m ?nobuild []" by (simp add: defs)
  have f: "fst (run_all_services ?m ?nobuild [Run ''docker --version'', Run ''docker info'']) = False"
    by (simp add: run_all_services_eq Let_def test_basic_environment_eq build_service_eq
        example_world_def tool_failing_def required_files_def init_def compose_def joinpath_def)
  have c: "\<exists>tr'. main ''/app'' False ?nobuild (Namespace (no_flags\<lparr>arg_all := True\<rparr>)) [] = Some (0, tr')"
    using main_exit_status [of "''/app''" False ?nobuild "[]" "no_flags\<lparr>arg_all := True\<rparr>"] p
    by (simp add: no_flags_def)
  have q: "preflight_ok ?m ?ok []" by (simp add: defs)
  have m1: "show_menu ?m ?ok [Run ''docker --version'', Run ''docker info''] =
              Some ([Run ''docker --version'', Run ''docker info''] @ [Read])"
    using main_exit_status [of _ _ ?ok "[Run ''docker --version'', Run ''docker info'']" _ ?m,
        THEN conjunct2, THEN conjunct2, THEN conjunct2, THEN conjunct2, THEN conjunct2]
    by (simp add: example_world_def strip_def is_space_def)
  have d: "main ''/app'' False ?ok (Namespace no_flags) [] =
     Some (0, [Run ''docker --version'', Run ''docker info'', Read])"
    using main_exit_status [of "''/app''" False ?ok "[]" no_flags] q m1
    by (simp add: defs)
  show ?thesis using a b p f c d by blast
qed

text \<open>
  The claim as written has status 0 in every case but a failed pre-flight check. A command
  line that the parser rejects exits with status 2, and no pre-flight check has run.
\<close>

theorem main_usage_error_counterexample:
  "main ''/app'' False (example_world (\<lambda>c. Exited 0 [] []) example_loads True) Usage_error [] =
     Some (2, [])"
  by (simp add: main_def)

subsection \<open>\<^verbatim>\<open>get_service_status\<close>: the structured pass\<close>

text \<open>
  What one line does to the loop. A line that is not JSON is skipped. A line that is an object
  with a non-empty \<^verbatim>\<open>Service\<close> stores its entry and the loop goes on. A line that is JSON but
  not an object ends the loop: the lines after it are never read.
\<close>

lemma parse_json_lines_decode_error:
  "loads (strip line) = JSONDecodeError \<Longrightarrow>
   parse_json_lines loads status (line # lines) = parse_json_lines loads status lines"
  by simp

lemma parse_json_lines_object:
  "strip line \<noteq> [] \<Longrightarrow> loads (strip line) = Loaded (JObject container) \<Longrightarrow>
   dict_get container ''Service'' [] \<noteq> [] \<Longrightarrow>
   parse_json_lines loads status (line # lines) =
     parse_json_lines loads
       (AList.update (dict_get container ''Service'' []) (dict_get container ''State'' []) status) lines"
  by (simp add: Let_def)

lemma parse_json_lines_non_object:
  "strip line \<noteq> [] \<Longrightarrow> loads (strip line) = Loaded JOther \<Longrightarrow>
   parse_json_lines loads status (line # lines) = status"
  by simp

text \<open>
  Claim C1 at two inputs. The first is the output of the repository's own unit test
  \<^verbatim>\<open>test_get_service_status_success\<close>, one line holding an array with one object, printed for
  both commands: \<^verbatim>\<open>json.loads\<close> gives a list, \<^verbatim>\<open>container.get\<close> raises, the handler around the
  loop catches it, and the plain-text pass skips the only line as the header. The result is
  empty; the test expects \<^verbatim>\<open>page-server\<close> under \<^verbatim>\<open>Up\<close>. The second has the line \<^verbatim>\<open>[]\<close> before
  an object line for \<^verbatim>\<open>nginx\<close>: the structured pass yields nothing, although on the object line
  alone it yields the entry, and since the plain \<^verbatim>\<open>ps\<close> prints nothing the result is empty.
\<close>

theorem structured_pass_stops_at_non_object:
  "example_loads (''['' @ json_line ''page-server'' ''Up'' @ '']'') = Loaded JOther \<and>
   get_service_status (init ''/app'' False)
     (example_world (\<lambda>c. Exited 0 (''['' @ json_line ''page-server'' ''Up'' @ '']'') [])
        example_loads True) [] =
     ([], [Run ''docker compose -f /app/servers/docker-compose.dev.yml ps --format json'',
           Run ''docker compose -f /app/servers/docker-compose.dev.yml ps'']) \<and>
   example_loads ''[]'' = Loaded JOther \<and>
   example_loads (json_line ''nginx'' ''running'') =
     Loaded (JObject [(''Service'', ''nginx''), (''State'', ''running'')]) \<and>
   structured_pass (example_world (json_tool []) example_loads True)
     (0, Some (''[]\<newline>'' @ json_line ''nginx'' ''running''), Some []) = [] \<and>
   structured_pass (example_world (json_tool []) example_loads True)
     (0, Some (json_line ''nginx'' ''running''), Some []) = [(''nginx'', ''running'')] \<and>
   get_service_status (init ''/app'' False)
     (example_world (json_tool (''[]\<newline>'' @ json_line ''nginx'' ''running''))
        example_loads True) [] =
     ([], [Run ''docker compose -f /app/servers/docker-compose.dev.yml ps --format json'',
           Run ''docker compose -f /app/servers/docker-compose.dev.yml ps''])"
  by (simp add: eval_defs json_eval_defs)

end
